theory Spec2Isabelle
  imports Main "HOL-Library.Word"
begin

unbundle bit_operations_syntax

section \<open>Platform values\<close>

text \<open>
  The gateway is TypeScript on Node.js. Bytes of a \<open>Buffer\<close> are 8-bit words, the
  elements of an \<open>Int16Array\<close> are 16-bit words. A WebSocket object is known by its
  identity only; its \<open>readyState\<close> is read through a function of the environment.
\<close>

type_synonym byte = "8 word"
type_synonym int16 = "16 word"
type_synonym ws = nat
type_synonym channel_id = string

datatype ready_state = CONNECTING | OPEN | CLOSING | CLOSED

datatype js_error = SyntaxError | TypeError | EngineError | CleanupTimeout

text \<open>A value as \<open>JSON.parse\<close> returns it, with \<open>undefined\<close> for absent properties.\<close>

datatype jsval =
    JUndefined
  | JNull
  | JBool bool
  | JNum int
  | JStr string
  | JArr "jsval list"
  | JObj "(string \<times> jsval) list"

text \<open>
  Property read \<open>v.k\<close>: a TypeError on \<open>undefined\<close> and \<open>null\<close>, the property or
  \<open>undefined\<close> on an object, \<open>undefined\<close> on the other values (none of the property
  names the gateway reads is a built-in of strings, numbers or arrays).
\<close>

fun get_prop :: "jsval \<Rightarrow> string \<Rightarrow> js_error + jsval" where
  "get_prop JUndefined k = Inl TypeError"
| "get_prop JNull k = Inl TypeError"
| "get_prop (JObj kvs) k = Inr (case map_of kvs k of None \<Rightarrow> JUndefined | Some v \<Rightarrow> v)"
| "get_prop v k = Inr JUndefined"

fun truthy :: "jsval \<Rightarrow> bool" where
  "truthy JUndefined = False"
| "truthy JNull = False"
| "truthy (JBool b) = b"
| "truthy (JNum n) = (n \<noteq> 0)"
| "truthy (JStr s) = (s \<noteq> [])"
| "truthy v = True"

text \<open>\<open>a || b\<close> on values.\<close>

definition js_or :: "jsval \<Rightarrow> jsval \<Rightarrow> jsval" where
  "js_or a b = (if truthy a then a else b)"

text \<open>
  A raw inbound message is either a text that \<open>JSON.parse\<close> accepts, identified with
  the value it parses to, or anything else (binary audio, broken text), on which
  \<open>JSON.parse\<close> throws a SyntaxError. \<open>JSON.stringify\<close> of a value is the text that
  parses back to it.
\<close>

datatype raw_msg = JsonText jsval | Opaque "byte list"

fun JSON_parse :: "raw_msg \<Rightarrow> js_error + jsval" where
  "JSON_parse (JsonText v) = Inr v"
| "JSON_parse (Opaque bs) = Inl SyntaxError"

definition JSON_stringify :: "jsval \<Rightarrow> raw_msg" where
  "JSON_stringify v = JsonText v"

text \<open>
  \<open>JSON.stringify\<close> leaves out the properties of an object whose value is \<open>undefined\<close>:
  an object literal that is stringified is built from the defined ones.
\<close>

definition defined_props :: "(string \<times> jsval) list \<Rightarrow> (string \<times> jsval) list" where
  "defined_props kvs = filter (\<lambda>kv. snd kv \<noteq> JUndefined) kvs"

subsection \<open>Base64\<close>

text \<open>
  \<open>buf.toString("base64")\<close> is RFC 4648 with padding. \<open>Buffer.from(s, "base64")\<close> is
  Node's lenient decoder: it reads up to the first \<open>=\<close>, passes over every character
  that is not in the alphabet (the URL-safe \<open>-\<close> and \<open>_\<close> are in it), and decodes the
  sextets it has read four by four; a last group of three gives two bytes, of two gives
  one byte, of one gives nothing.
\<close>

definition b64char :: "nat \<Rightarrow> char" where
  "b64char n =
     (if n < 26 then char_of (65 + n)
      else if n < 52 then char_of (71 + n)
      else if n < 62 then char_of (n - 4)
      else if n = 62 then CHR ''+'' else CHR ''/'')"

definition b64index :: "char \<Rightarrow> nat" where
  "b64index c =
     (let k = (of_char c :: nat) in
      if 65 \<le> k \<and> k \<le> 90 then k - 65
      else if 97 \<le> k \<and> k \<le> 122 then k - 71
      else if 48 \<le> k \<and> k \<le> 57 then k + 4
      else if k = 43 \<or> k = 45 then 62
      else if k = 47 \<or> k = 95 then 63
      else 0)"

definition b64legal :: "char \<Rightarrow> bool" where
  "b64legal c =
     (let k = (of_char c :: nat) in
      (65 \<le> k \<and> k \<le> 90) \<or> (97 \<le> k \<and> k \<le> 122) \<or> (48 \<le> k \<and> k \<le> 57)
      \<or> k = 43 \<or> k = 45 \<or> k = 47 \<or> k = 95)"

definition sextet1 :: "byte \<Rightarrow> nat" where
  "sextet1 a = unat a div 4"

definition sextet2 :: "byte \<Rightarrow> byte \<Rightarrow> nat" where
  "sextet2 a b = (unat a mod 4) * 16 + unat b div 16"

definition sextet3 :: "byte \<Rightarrow> byte \<Rightarrow> nat" where
  "sextet3 b c = (unat b mod 16) * 4 + unat c div 64"

definition sextet4 :: "byte \<Rightarrow> nat" where
  "sextet4 c = unat c mod 64"

definition octet1 :: "nat \<Rightarrow> nat \<Rightarrow> byte" where
  "octet1 s1 s2 = of_nat (s1 * 4 + s2 div 16)"

definition octet2 :: "nat \<Rightarrow> nat \<Rightarrow> byte" where
  "octet2 s2 s3 = of_nat ((s2 mod 16) * 16 + s3 div 4)"

definition octet3 :: "nat \<Rightarrow> nat \<Rightarrow> byte" where
  "octet3 s3 s4 = of_nat ((s3 mod 4) * 64 + s4)"

fun b64encode :: "byte list \<Rightarrow> string" where
  "b64encode [] = []"
| "b64encode [a] =
     [b64char (sextet1 a), b64char (sextet2 a 0), CHR ''='', CHR ''='']"
| "b64encode [a, b] =
     [b64char (sextet1 a), b64char (sextet2 a b), b64char (sextet3 b 0), CHR ''='']"
| "b64encode (a # b # c # rest) =
     [b64char (sextet1 a), b64char (sextet2 a b), b64char (sextet3 b c), b64char (sextet4 c)]
     @ b64encode rest"

fun decode_sextets :: "nat list \<Rightarrow> byte list" where
  "decode_sextets (s1 # s2 # s3 # s4 # rest) =
     octet1 s1 s2 # octet2 s2 s3 # octet3 s3 s4 # decode_sextets rest"
| "decode_sextets [s1, s2, s3] = [octet1 s1 s2, octet2 s2 s3]"
| "decode_sextets [s1, s2] = [octet1 s1 s2]"
| "decode_sextets ss = []"

definition b64decode :: "string \<Rightarrow> byte list" where
  "b64decode s =
     decode_sextets (map b64index (filter b64legal (takeWhile (\<lambda>c. c \<noteq> CHR ''='') s)))"

subsection \<open>PCM samples and their bytes\<close>

text \<open>
  \<open>new Int16Array(buffer.buffer, buffer.byteOffset, buffer.length / 2)\<close> reads the bytes
  two by two, low byte first; the length is truncated to an integer, so an odd last byte
  is left out. \<open>Buffer.from(samples.buffer)\<close> is the way back.
\<close>

definition int16_of_bytes :: "byte \<Rightarrow> byte \<Rightarrow> int16" where
  "int16_of_bytes lo hi = (ucast lo) OR (push_bit 8 (ucast hi))"

fun Int16Array_of_buffer :: "byte list \<Rightarrow> int16 list" where
  "Int16Array_of_buffer (lo # hi # rest) = int16_of_bytes lo hi # Int16Array_of_buffer rest"
| "Int16Array_of_buffer bs = []"

definition Buffer_of_Int16Array :: "int16 list \<Rightarrow> byte list" where
  "Buffer_of_Int16Array samples =
     concat (map (\<lambda>s. [ucast s, ucast (drop_bit 8 s)]) samples)"

subsection \<open>The engine and the libraries, as an environment\<close>

text \<open>
  Calls on the conversation engine. What the engine does with them is outside the
  repository; each call settles in one of three ways, given by the environment.
\<close>

datatype audio_input =
    PcmBytes "byte list"
  | MessageBytes raw_msg

datatype engine_call =
    SetupPromptStart
  | SetupSystemPrompt jsval
  | SetupStartAudio
  | EndAudioContent
  | EndPrompt
  | Close
  | StreamAudio audio_input
  | SetStreamId jsval
  | CreateConversation channel_id ws
  | StartSession channel_id
  | CreateStreamSession channel_id
  | InitiateSession channel_id
  | CloseSession channel_id
  | ForceCloseSession channel_id

datatype outcome = Resolves | Rejects | Hangs

text \<open>
  The companding of one sample is the \<open>alawmulaw\<close> library's: \<open>mulaw.encode\<close> and
  \<open>mulaw.decode\<close> map it over the array. \<open>Buffer.from\<close> on a value that is not a string
  is left to the environment as well. Time is not measured: where a call is awaited in a
  race against a timer, \<open>late\<close> says that the timer fires while the call is awaited,
  whatever the call does afterwards.
\<close>

record env =
  encodeSample :: "int16 \<Rightarrow> byte"
  decodeSample :: "byte \<Rightarrow> int16"
  buffer_from_other :: "jsval \<Rightarrow> js_error + byte list"
  call_outcome :: "engine_call \<Rightarrow> outcome"
  late :: "engine_call \<Rightarrow> bool"

definition mulaw_encode :: "env \<Rightarrow> int16 list \<Rightarrow> byte list" where
  "mulaw_encode e samples = map (encodeSample e) samples"

definition mulaw_decode :: "env \<Rightarrow> byte list \<Rightarrow> int16 list" where
  "mulaw_decode e bs = map (decodeSample e) bs"

fun Buffer_from_base64 :: "env \<Rightarrow> jsval \<Rightarrow> js_error + byte list" where
  "Buffer_from_base64 e (JStr s) = Inr (b64decode s)"
| "Buffer_from_base64 e JUndefined = Inl TypeError"
| "Buffer_from_base64 e JNull = Inl TypeError"
| "Buffer_from_base64 e (JBool b) = Inl TypeError"
| "Buffer_from_base64 e (JNum n) = Inl TypeError"
| "Buffer_from_base64 e v = buffer_from_other e v"

text \<open>How an async function ends: it returns, it throws, or it never resumes.\<close>

datatype settle = Fulfilled | Rejected js_error | Pending

datatype wire_msg = TextMsg jsval | BinaryMsg "int16 list"

datatype effect =
    Send ws wire_msg
  | WsClose ws
  | Log string
  | ErrorLog string
  | Call engine_call
  | RegistryDelete channel_id

text \<open>\<open>await call\<close>: the call is made, and the outcome decides how the caller goes on.\<close>

definition await_call :: "env \<Rightarrow> engine_call \<Rightarrow> effect list \<times> settle" where
  "await_call e c =
     ([Call c],
      case call_outcome e c of
        Resolves \<Rightarrow> Fulfilled
      | Rejects \<Rightarrow> Rejected EngineError
      | Hangs \<Rightarrow> Pending)"

text \<open>Sequencing of two awaited parts: the second runs when the first returned.\<close>

definition seq_then ::
  "effect list \<times> settle \<Rightarrow> effect list \<times> settle \<Rightarrow> effect list \<times> settle"
where
  "seq_then a b = (case snd a of Fulfilled \<Rightarrow> (fst a @ fst b, snd b) | r \<Rightarrow> (fst a, r))"

text \<open>\<open>try { body } catch (e) { handler }\<close>, with a handler that does not throw.\<close>

definition try_catch ::
  "effect list \<times> settle \<Rightarrow> (js_error \<Rightarrow> effect list) \<Rightarrow> effect list \<times> settle"
where
  "try_catch body handler =
     (case snd body of
        Rejected err \<Rightarrow> (fst body @ handler err, Fulfilled)
      | r \<Rightarrow> (fst body, r))"

section \<open>Fan-out to the clients of a channel\<close>

text \<open>
  \<open>clients.forEach((client) => { if (client.readyState === WebSocket.OPEN)
  client.send(message); })\<close>. A \<open>Set\<close> iterates in insertion order: a list without
  duplicates. \<open>telephony/browser.ts\<close> reads \<open>WebSocket.OPEN\<close> off the global
  \<open>WebSocket\<close>, the other files off the \<open>ws\<close> module: the same constant. On the
  outbound paths the \<open>console.log\<close> lines that print a response or a debug number are not
  among the effects; on the inbound paths and in the lifecycle every log line is.
\<close>

definition forEach_send :: "(ws \<Rightarrow> ready_state) \<Rightarrow> ws list \<Rightarrow> wire_msg \<Rightarrow> effect list" where
  "forEach_send readyState clients message =
     concat (map (\<lambda>client. if readyState client = OPEN then [Send client message] else [])
                 clients)"

section \<open>Genesys integration\<close>

definition resample16kHzTo8kHz :: "int16 list \<Rightarrow> int16 list" where
  "resample16kHzTo8kHz pcmSamples =
     (let outputLength = (length pcmSamples + 1) div 2
      in map (\<lambda>i. pcmSamples ! (i * 2)) [0..<outputLength])"

definition genesys_response :: "env \<Rightarrow> int16 list \<Rightarrow> jsval \<Rightarrow> jsval" where
  "genesys_response e pcmSamples streamId =
     (let resampledPcmSamples = resample16kHzTo8kHz pcmSamples;
          mulawSamples = mulaw_encode e resampledPcmSamples;
          payload = b64encode mulawSamples
      in JObj (defined_props
           [(''event'', JStr ''audio''),
            (''audio'', JObj [(''track'', JStr ''outbound''), (''payload'', JStr payload)]),
            (''streamId'', streamId)]))"

definition genesys_tryProcessAudioOutput ::
  "bool \<Rightarrow> env \<Rightarrow> (ws \<Rightarrow> ready_state) \<Rightarrow> int16 list \<Rightarrow> ws list \<Rightarrow> jsval \<Rightarrow> effect list"
where
  "genesys_tryProcessAudioOutput isOn e readyState pcmSamples clients streamId =
     (if \<not> isOn then []
      else forEach_send readyState clients (TextMsg (genesys_response e pcmSamples streamId)))"

text \<open>The handlers of \<open>messageHandlers\<close>, by message tag.\<close>

definition genesys_connect :: "jsval \<Rightarrow> effect list \<times> settle" where
  "genesys_connect jsonMsg =
     (case get_prop jsonMsg ''streamId'' of
        Inl err \<Rightarrow> ([], Rejected err)
      | Inr sid \<Rightarrow>
          (case get_prop jsonMsg ''callId'' of
             Inl err \<Rightarrow> ([], Rejected err)
           | Inr cid \<Rightarrow> ([Call (SetStreamId (js_or sid cid)), Log ''Started Genesys AudioHook''],
                        Fulfilled)))"

definition genesys_audio :: "env \<Rightarrow> jsval \<Rightarrow> effect list \<times> settle" where
  "genesys_audio e jsonMsg =
     (case get_prop jsonMsg ''audio'' of
        Inl err \<Rightarrow> ([], Rejected err)
      | Inr audio \<Rightarrow>
          if \<not> truthy audio then ([ErrorLog ''Invalid audio payload''], Fulfilled)
          else
            (case get_prop audio ''payload'' of
               Inl err \<Rightarrow> ([], Rejected err)
             | Inr payload \<Rightarrow>
                 if \<not> truthy payload then ([ErrorLog ''Invalid audio payload''], Fulfilled)
                 else
                   (case Buffer_from_base64 e payload of
                      Inl err \<Rightarrow> ([], Rejected err)
                    | Inr audioInput \<Rightarrow>
                        (let pcmSamples = mulaw_decode e audioInput;
                             audioBuffer = Buffer_of_Int16Array pcmSamples
                         in await_call e (StreamAudio (PcmBytes audioBuffer))))))"

definition genesys_error :: "jsval \<Rightarrow> effect list \<times> settle" where
  "genesys_error jsonMsg =
     (case get_prop jsonMsg ''error'' of
        Inl err \<Rightarrow> ([], Rejected err)
      | Inr err \<Rightarrow> ([ErrorLog ''Genesys AudioHook error''], Fulfilled))"

definition genesys_dispatch :: "env \<Rightarrow> raw_msg \<Rightarrow> effect list \<times> settle" where
  "genesys_dispatch e msg =
     (case JSON_parse msg of
        Inl err \<Rightarrow> ([], Rejected err)
      | Inr data \<Rightarrow>
          (case get_prop data ''event'' of
             Inl err \<Rightarrow> ([], Rejected err)
           | Inr ev \<Rightarrow>
               (case get_prop data ''type'' of
                  Inl err \<Rightarrow> ([], Rejected err)
                | Inr ty \<Rightarrow>
                    (let eventType = js_or ev ty
                     in if eventType = JStr ''connect'' then genesys_connect data
                        else if eventType = JStr ''audio'' then genesys_audio e data
                        else if eventType = JStr ''error'' then genesys_error data
                        else ([ErrorLog ''Caught unclassified Genesys message''], Fulfilled)))))"

definition genesys_tryProcessAudioInput :: "bool \<Rightarrow> env \<Rightarrow> raw_msg \<Rightarrow> effect list \<times> settle" where
  "genesys_tryProcessAudioInput isOn e msg =
     (if \<not> isOn then ([], Fulfilled)
      else try_catch (genesys_dispatch e msg)
             (\<lambda>err. [ErrorLog ''Error processing Genesys audio data'']))"

text \<open>The audio buffers handed to the engine by a run, in order.\<close>

fun streamed :: "effect list \<Rightarrow> byte list list" where
  "streamed [] = []"
| "streamed (Call (StreamAudio (PcmBytes bs)) # es) = bs # streamed es"
| "streamed (x # es) = streamed es"

section \<open>Browser integration, outbound\<close>

text \<open>
  An engine event's data is an object (\<open>SessionEventData\<close>): the list of its properties.
  \<open>JSON.stringify({ event: { [eventName]: { ...data } } })\<close> is the envelope of a
  structured event.
\<close>

type_synonym event_data = "(string \<times> jsval) list"

definition event_envelope :: "string \<Rightarrow> event_data \<Rightarrow> jsval" where
  "event_envelope eventName data = JObj [(''event'', JObj [(eventName, JObj data)])]"

definition browser_tryProcessAudioOutput ::
  "bool \<Rightarrow> (ws \<Rightarrow> ready_state) \<Rightarrow> event_data \<Rightarrow> ws list \<Rightarrow> effect list"
where
  "browser_tryProcessAudioOutput isOn readyState data clients =
     (if \<not> isOn then []
      else forEach_send readyState clients (TextMsg (event_envelope ''audioOutput'' data)))"

section \<open>Twilio integration, outbound\<close>

text \<open>
  \<open>TwilioIntegration.tryProcessAudioOutput\<close>, with the class's own
  \<open>resample16kHzTo8kHz\<close>, which is the Genesys one word for word. One call makes one
  message from the samples it is given. \<open>streamSid\<close> is what the caller passes,
  \<open>conversation.twilioStreamSid\<close>, \<open>undefined\<close> before a \<open>start\<close> message has set it.
\<close>

definition twilio_response :: "env \<Rightarrow> int16 list \<Rightarrow> jsval \<Rightarrow> jsval" where
  "twilio_response e pcmSamples streamSid =
     (let resampledPcmSamples = resample16kHzTo8kHz pcmSamples;
          mulawSamples = mulaw_encode e resampledPcmSamples;
          payload = b64encode mulawSamples
      in JObj (defined_props
           [(''event'', JStr ''media''),
            (''media'', JObj [(''track'', JStr ''outbound''), (''payload'', JStr payload)]),
            (''streamSid'', streamSid)]))"

definition twilio_tryProcessAudioOutput ::
  "bool \<Rightarrow> env \<Rightarrow> (ws \<Rightarrow> ready_state) \<Rightarrow> int16 list \<Rightarrow> ws list \<Rightarrow> jsval \<Rightarrow> effect list"
where
  "twilio_tryProcessAudioOutput isOn e readyState pcmSamples clients streamSid =
     (if \<not> isOn then []
      else forEach_send readyState clients (TextMsg (twilio_response e pcmSamples streamSid)))"

section \<open>Event handlers of a channel\<close>

record integrations =
  browser_isOn :: bool
  vonage_isOn :: bool
  twilio_isOn :: bool

text \<open>\<open>channelClients.get(id) || new Set()\<close>\<close>

definition clients_or_empty :: "ws list option \<Rightarrow> ws list" where
  "clients_or_empty got = (case got of Some clients \<Rightarrow> clients | None \<Rightarrow> [])"

definition handleConversationEvent ::
  "(ws \<Rightarrow> ready_state) \<Rightarrow> ws list option \<Rightarrow> string \<Rightarrow> event_data \<Rightarrow> effect list"
where
  "handleConversationEvent readyState got eventName data =
     (let clients = clients_or_empty got;
          message = TextMsg (event_envelope eventName data)
      in forEach_send readyState clients message)"

definition streamComplete :: "(ws \<Rightarrow> ready_state) \<Rightarrow> ws list option \<Rightarrow> effect list" where
  "streamComplete readyState got =
     (let clients = clients_or_empty got;
          message = TextMsg (JObj [(''event'', JStr ''streamComplete'')])
      in forEach_send readyState clients message)"

definition CHUNK_SIZE_BYTES :: nat where
  "CHUNK_SIZE_BYTES = 640"

definition SAMPLES_PER_CHUNK :: nat where
  "SAMPLES_PER_CHUNK = CHUNK_SIZE_BYTES div 2"

text \<open>\<open>samples.slice(a, b)\<close> for \<open>0 \<le> a \<le> b\<close>; the end is clipped to the array.\<close>

definition Int16Array_slice :: "int16 list \<Rightarrow> nat \<Rightarrow> nat \<Rightarrow> int16 list" where
  "Int16Array_slice samples a b = take (b - a) (drop a samples)"

text \<open>
  The chunking loop, from a given offset: the sends it makes and the offset it stops at.
  \<^verbatim>\<open>
  while (offset + SAMPLES_PER_CHUNK <= pcmSamples.length) {
    const chunk = pcmSamples.slice(offset, offset + SAMPLES_PER_CHUNK);
    clients.forEach((client) => { if (client.readyState === WebSocket.OPEN) client.send(chunk); });
    offset += SAMPLES_PER_CHUNK;
  }
  \<close>
\<close>

function send_chunks ::
  "(ws \<Rightarrow> ready_state) \<Rightarrow> ws list \<Rightarrow> int16 list \<Rightarrow> nat \<Rightarrow> effect list \<times> nat"
where
  "send_chunks readyState clients samples offset =
     (if offset + SAMPLES_PER_CHUNK \<le> length samples then
        (let chunk = Int16Array_slice samples offset (offset + SAMPLES_PER_CHUNK);
             rest = send_chunks readyState clients samples (offset + SAMPLES_PER_CHUNK)
         in (forEach_send readyState clients (BinaryMsg chunk) @ fst rest, snd rest))
      else ([], offset))"
  by pat_completeness auto
termination
  by (relation "measure (\<lambda>(readyState, clients, samples, offset). length samples - offset)")
     (auto simp: SAMPLES_PER_CHUNK_def CHUNK_SIZE_BYTES_def)

declare send_chunks.simps [simp del]

text \<open>
  The \<open>audioOutput\<close> handler of the main server. \<open>got\<close> is
  \<open>channelClients.get(conversation.id)\<close> at the time of the event, \<open>streamSid\<close> is
  \<open>conversation.twilioStreamSid\<close>. \<open>Buffer.from(data["content"], "base64")\<close> throws on a
  missing content, before anything is sent.
\<close>

definition data_content :: "event_data \<Rightarrow> jsval" where
  "data_content data = (case map_of data ''content'' of None \<Rightarrow> JUndefined | Some v \<Rightarrow> v)"

definition audioOutput ::
  "integrations \<Rightarrow> env \<Rightarrow> (ws \<Rightarrow> ready_state) \<Rightarrow> ws list option \<Rightarrow> jsval \<Rightarrow> event_data
     \<Rightarrow> effect list \<times> (js_error + unit)"
where
  "audioOutput cfg e readyState got streamSid data =
     (let clients = clients_or_empty got
      in case Buffer_from_base64 e (data_content data) of
           Inl err \<Rightarrow> ([], Inl err)
         | Inr buffer \<Rightarrow>
             (let pcmSamples = Int16Array_of_buffer buffer;
                  loop = send_chunks readyState clients pcmSamples 0
              in (fst loop
                  @ twilio_tryProcessAudioOutput (twilio_isOn cfg) e readyState pcmSamples
                      clients streamSid
                  @ browser_tryProcessAudioOutput (browser_isOn cfg) readyState data clients,
                  Inr ())))"

text \<open>
  The \<open>audioOutput\<close> handler of the first server (\<open>useJson\<close> and \<open>useVonage\<close> are both
  \<open>true\<close> there). The block under \<open>useVonage\<close> reads and writes the variable
  \<open>audioBuffer\<close>; the handler declares that variable itself, \<open>let audioBuffer = null\<close>,
  on every call, and what the block leaves in it ends with the call.
\<close>

definition useVonage :: bool where
  "useVonage = True"

definition useJson :: bool where
  "useJson = True"

definition vonage_block ::
  "(ws \<Rightarrow> ready_state) \<Rightarrow> ws list \<Rightarrow> int16 list option \<Rightarrow> int16 list
     \<Rightarrow> effect list \<times> int16 list option"
where
  "vonage_block readyState clients audioBuffer newPcmSamples =
     (let combinedSamples =
            (case audioBuffer of
               Some left \<Rightarrow> left @ newPcmSamples
             | None \<Rightarrow> newPcmSamples);
          loop = send_chunks readyState clients combinedSamples 0;
          offset = snd loop
      in (fst loop,
          if offset < length combinedSamples then Some (drop offset combinedSamples) else None))"

definition audioOutput_legacy ::
  "env \<Rightarrow> (ws \<Rightarrow> ready_state) \<Rightarrow> ws list option \<Rightarrow> event_data
     \<Rightarrow> effect list \<times> (js_error + unit)"
where
  "audioOutput_legacy e readyState got data =
     (let audioBuffer = None
      in case Buffer_from_base64 e (data_content data) of
           Inl err \<Rightarrow> ([], Inl err)
         | Inr buffer \<Rightarrow>
             (let newPcmSamples = Int16Array_of_buffer buffer;
                  clients = clients_or_empty got;
                  json = (if useJson
                          then forEach_send readyState clients
                                 (TextMsg (event_envelope ''audioOutput'' data))
                          else []);
                  block = (if useVonage
                           then vonage_block readyState clients audioBuffer newPcmSamples
                           else ([], audioBuffer))
              in (json @ fst block, Inr ())))"

text \<open>
  Successive events of one channel: each is a call of the handler, and the handler keeps
  nothing from one call to the next.
\<close>

definition audioOutput_legacy_events ::
  "env \<Rightarrow> (ws \<Rightarrow> ready_state) \<Rightarrow> ws list option \<Rightarrow> event_data list \<Rightarrow> effect list"
where
  "audioOutput_legacy_events e readyState got events =
     concat (map (\<lambda>data. fst (audioOutput_legacy e readyState got data)) events)"

definition audioOutput_events ::
  "integrations \<Rightarrow> env \<Rightarrow> (ws \<Rightarrow> ready_state) \<Rightarrow> ws list option \<Rightarrow> jsval
     \<Rightarrow> event_data list \<Rightarrow> effect list"
where
  "audioOutput_events cfg e readyState got streamSid events =
     concat (map (\<lambda>data. fst (audioOutput cfg e readyState got streamSid data)) events)"

text \<open>
  The framer as the specification words it, for comparison: one leftover buffer of the
  channel, carried from each event to the next.
\<close>

fun carried_framer ::
  "(ws \<Rightarrow> ready_state) \<Rightarrow> ws list \<Rightarrow> int16 list option \<Rightarrow> int16 list list \<Rightarrow> effect list"
where
  "carried_framer readyState clients audioBuffer [] = []"
| "carried_framer readyState clients audioBuffer (newPcmSamples # later) =
     (let block = vonage_block readyState clients audioBuffer newPcmSamples
      in fst block @ carried_framer readyState clients (snd block) later)"

text \<open>What one client is sent, read off the effects.\<close>

fun binary_frames_to :: "ws \<Rightarrow> effect list \<Rightarrow> int16 list list" where
  "binary_frames_to c [] = []"
| "binary_frames_to c (Send c' (BinaryMsg chunk) # es) =
     (if c' = c then chunk # binary_frames_to c es else binary_frames_to c es)"
| "binary_frames_to c (x # es) = binary_frames_to c es"

fun text_messages_to :: "ws \<Rightarrow> effect list \<Rightarrow> jsval list" where
  "text_messages_to c [] = []"
| "text_messages_to c (Send c' (TextMsg v) # es) =
     (if c' = c then v # text_messages_to c es else text_messages_to c es)"
| "text_messages_to c (x # es) = text_messages_to c es"

text \<open>The mulaw bytes a media message carries: its \<open>media.payload\<close>, decoded.\<close>

definition media_payload :: "jsval \<Rightarrow> byte list" where
  "media_payload v =
     (case get_prop v ''media'' of
        Inr media \<Rightarrow>
          (case get_prop media ''payload'' of
             Inr (JStr payload) \<Rightarrow> b64decode payload
           | _ \<Rightarrow> [])
      | Inl err \<Rightarrow> [])"

text \<open>Every send of a run goes to a client of the channel whose socket is open.\<close>

definition only_open :: "(ws \<Rightarrow> ready_state) \<Rightarrow> ws list \<Rightarrow> effect list \<Rightarrow> bool" where
  "only_open readyState clients es =
     list_all (\<lambda>x. case x of
                     Send c m \<Rightarrow> readyState c = OPEN \<and> c \<in> set clients
                   | _ \<Rightarrow> True) es"

section \<open>Inbound adapters\<close>

text \<open>\<open>BrowserIntegration.tryProcessAudioInput\<close>: the catch block is empty.\<close>

definition browser_decode :: "env \<Rightarrow> raw_msg \<Rightarrow> js_error + byte list" where
  "browser_decode e msg =
     (case JSON_parse msg of
        Inl err \<Rightarrow> Inl err
      | Inr jsonMsg \<Rightarrow>
          (case get_prop jsonMsg ''event'' of
             Inl err \<Rightarrow> Inl err
           | Inr ev \<Rightarrow>
               (case get_prop ev ''audioInput'' of
                  Inl err \<Rightarrow> Inl err
                | Inr audioInput \<Rightarrow>
                    (case get_prop audioInput ''content'' of
                       Inl err \<Rightarrow> Inl err
                     | Inr content \<Rightarrow> Buffer_from_base64 e content))))"

definition browser_tryProcessAudioInput :: "bool \<Rightarrow> env \<Rightarrow> raw_msg \<Rightarrow> effect list \<times> settle" where
  "browser_tryProcessAudioInput isOn e msg =
     (if \<not> isOn then ([], Fulfilled)
      else try_catch
             (case browser_decode e msg of
                Inl err \<Rightarrow> ([], Rejected err)
              | Inr audioBuffer \<Rightarrow> await_call e (StreamAudio (PcmBytes audioBuffer)))
             (\<lambda>err. []))"

text \<open>
  \<open>VonageIntegration.processAudioData\<close>, the one inbound method of the class: whatever
  the message is, a copy of its bytes is streamed to the engine.
\<close>

definition vonage_processAudioData :: "bool \<Rightarrow> env \<Rightarrow> raw_msg \<Rightarrow> effect list \<times> settle" where
  "vonage_processAudioData isOn e message =
     (if \<not> isOn then ([], Fulfilled)
      else try_catch (await_call e (StreamAudio (MessageBytes message)))
             (\<lambda>err. [ErrorLog ''Error processing Vonage audio data'']))"

text \<open>
  \<open>TwilioIntegration.tryProcessAudioInput\<close>. \<open>JSON.parse\<close> stands before the \<open>try\<close>
  block; the lookup of the handler and its call stand inside.
\<close>

definition twilio_start :: "jsval \<Rightarrow> effect list \<times> settle" where
  "twilio_start jsonMsg =
     (case get_prop jsonMsg ''streamSid'' of
        Inl err \<Rightarrow> ([], Rejected err)
      | Inr sid \<Rightarrow> ([Call (SetStreamId sid), Log ''Started twilio''], Fulfilled))"

definition twilio_media :: "env \<Rightarrow> jsval \<Rightarrow> effect list \<times> settle" where
  "twilio_media e jsonMsg =
     (case get_prop jsonMsg ''media'' of
        Inl err \<Rightarrow> ([], Rejected err)
      | Inr media \<Rightarrow>
          (case get_prop media ''payload'' of
             Inl err \<Rightarrow> ([], Rejected err)
           | Inr payload \<Rightarrow>
               (case Buffer_from_base64 e payload of
                  Inl err \<Rightarrow> ([], Rejected err)
                | Inr audioInput \<Rightarrow>
                    (let pcmSamples = mulaw_decode e audioInput;
                         audioBuffer = Buffer_of_Int16Array pcmSamples
                     in await_call e (StreamAudio (PcmBytes audioBuffer))))))"

definition twilio_dispatch :: "env \<Rightarrow> jsval \<Rightarrow> effect list \<times> settle" where
  "twilio_dispatch e data =
     (case get_prop data ''event'' of
        Inl err \<Rightarrow> ([], Rejected err)
      | Inr ev \<Rightarrow>
          if ev = JStr ''start'' then twilio_start data
          else if ev = JStr ''media'' then twilio_media e data
          else ([ErrorLog ''Caught unclassified Twilio message''], Fulfilled))"

definition twilio_tryProcessAudioInput :: "bool \<Rightarrow> env \<Rightarrow> raw_msg \<Rightarrow> effect list \<times> settle" where
  "twilio_tryProcessAudioInput isOn e msg =
     (if \<not> isOn then ([], Fulfilled)
      else
        (case JSON_parse msg of
           Inl err \<Rightarrow> ([], Rejected err)
         | Inr data \<Rightarrow>
             try_catch (twilio_dispatch e data)
               (\<lambda>err. [ErrorLog ''Error processing Twilio audio data''])))"

text \<open>\<open>tryProcessNovaSonicMessage\<close>: the control messages; the catch block is empty.\<close>

definition novaSonicHandlers :: "env \<Rightarrow> jsval \<Rightarrow> jsval \<Rightarrow> (effect list \<times> settle) option" where
  "novaSonicHandlers e tag jsonMsg =
     (if tag = JStr ''promptStart'' then Some (await_call e SetupPromptStart)
      else if tag = JStr ''systemPrompt'' then
        Some (case get_prop jsonMsg ''data'' of
                Inl err \<Rightarrow> ([], Rejected err)
              | Inr text \<Rightarrow> await_call e (SetupSystemPrompt text))
      else if tag = JStr ''audioStart'' then Some (await_call e SetupStartAudio)
      else if tag = JStr ''stopAudio'' then
        Some (seq_then (await_call e EndAudioContent) (await_call e EndPrompt))
      else None)"

definition tryProcessNovaSonicMessage :: "env \<Rightarrow> raw_msg \<Rightarrow> effect list \<times> settle" where
  "tryProcessNovaSonicMessage e msg =
     try_catch
       (case JSON_parse msg of
          Inl err \<Rightarrow> ([], Rejected err)
        | Inr jsonMsg \<Rightarrow>
            (case get_prop jsonMsg ''type'' of
               Inl err \<Rightarrow> ([], Rejected err)
             | Inr tag \<Rightarrow>
                 (case novaSonicHandlers e tag jsonMsg of
                    Some run \<Rightarrow> run
                  | None \<Rightarrow> ([], Fulfilled))))
       (\<lambda>err. [])"

section \<open>The channel registry\<close>

text \<open>
  The three module-level maps of the server. A conversation is known by the channel id
  it was created for and by which creation it comes from (the count of conversations
  created before it). \<open>created\<close> counts the conversations created so far;
  \<open>suspended\<close> holds, for each connection whose \<open>initializeOrJoinChannel\<close> is waiting at
  an \<open>await\<close>, the conversation in its local variable; \<open>closing\<close> holds, for each call
  of \<open>handleClose\<close> that is waiting at its \<open>await\<close>, the connection and the channel id
  in its local variable.
\<close>

record conversation =
  conv_id :: channel_id
  handle :: nat

record server =
  channelConversations :: "channel_id \<rightharpoonup> conversation"
  channelClients :: "channel_id \<rightharpoonup> ws list"
  clientChannels :: "ws \<rightharpoonup> channel_id"
  created :: nat
  suspended :: "ws \<rightharpoonup> conversation"
  closing :: "(ws \<times> channel_id) list"

definition empty_server :: server where
  "empty_server =
     \<lparr>channelConversations = Map.empty, channelClients = Map.empty,
      clientChannels = Map.empty, created = 0, suspended = Map.empty, closing = []\<rparr>"

definition Set_add :: "ws \<Rightarrow> ws list \<Rightarrow> ws list" where
  "Set_add w clients = (if w \<in> set clients then clients else clients @ [w])"

definition Set_delete :: "ws \<Rightarrow> ws list \<Rightarrow> ws list" where
  "Set_delete w clients = removeAll w clients"

text \<open>What the engine client answers when asked, at the time of the call.\<close>

record bedrock =
  getActiveSessions :: "channel_id list"
  getLastActivityTime :: "channel_id \<Rightarrow> int"
  isSessionActive :: "channel_id \<Rightarrow> bool"

datatype server_variant = Legacy | Main

text \<open>
  The two servers differ in the call that closes a session from outside the graceful
  sequence: \<open>bedrockClient.forceCloseSession(id)\<close> in the first server,
  \<open>bedrockClient.closeSession(id)\<close> in the main one.
\<close>

fun client_close :: "server_variant \<Rightarrow> channel_id \<Rightarrow> engine_call" where
  "client_close Legacy sessionId = ForceCloseSession sessionId"
| "client_close Main sessionId = CloseSession sessionId"

text \<open>
  Both calls stand in a \<open>try\<close> block without \<open>await\<close>. \<open>forceCloseSession\<close> is a
  plain call: when it throws, the catch block runs. \<open>closeSession\<close> returns a promise
  (the first server chains \<open>.catch\<close> on it): when it rejects, no catch block runs.
\<close>

definition close_throws :: "server_variant \<Rightarrow> env \<Rightarrow> channel_id \<Rightarrow> bool" where
  "close_throws v e sessionId =
     (v = Legacy \<and> call_outcome e (client_close v sessionId) = Rejects)"

definition error_text :: "js_error \<Rightarrow> string" where
  "error_text err =
     (case err of
        SyntaxError \<Rightarrow> ''SyntaxError''
      | TypeError \<Rightarrow> ''TypeError''
      | EngineError \<Rightarrow> ''Error''
      | CleanupTimeout \<Rightarrow> ''Error: Session cleanup timeout'')"

definition sendError :: "ws \<Rightarrow> string \<Rightarrow> string \<Rightarrow> effect list" where
  "sendError w message details =
     [Send w (TextMsg (JObj [(''event'', JStr ''error''),
                             (''data'', JObj [(''message'', JStr message),
                                              (''details'', JStr details)])]))]"

definition sessionReady :: "channel_id \<Rightarrow> bool \<Rightarrow> wire_msg" where
  "sessionReady cid isNewChannel =
     TextMsg (JObj [(''event'', JStr ''sessionReady''),
                    (''message'', JStr (''Connected to channel '' @ cid)),
                    (''isNewChannel'', JBool isNewChannel)])"

subsection \<open>Joining\<close>

text \<open>
  The tail of \<open>initializeOrJoinChannel\<close>, after the \<open>if\<close>: the client is added to the
  set of the channel and told so. \<open>channelClients.get(id)!\<close> on a missing entry is
  \<open>undefined\<close>, \<open>clients.add\<close> on it throws, and the catch block reports and closes.
\<close>

definition join_failed :: "ws \<Rightarrow> js_error \<Rightarrow> effect list" where
  "join_failed w err =
     sendError w ''Failed to initialize or join channel'' (error_text err) @ [WsClose w]"

definition attach :: "ws \<Rightarrow> conversation \<Rightarrow> bool \<Rightarrow> server \<Rightarrow> server \<times> effect list" where
  "attach w conv isNewChannel st =
     (case channelClients st (conv_id conv) of
        None \<Rightarrow> (st, join_failed w TypeError)
      | Some clients \<Rightarrow>
          (st\<lparr>channelClients := (channelClients st)(conv_id conv \<mapsto> Set_add w clients),
              clientChannels := (clientChannels st)(w \<mapsto> conv_id conv)\<rparr>,
           [Send w (sessionReady (conv_id conv) isNewChannel)]))"

text \<open>
  An async function runs up to its first \<open>await\<close> in one piece, and from each \<open>await\<close>
  to the next in one piece when the awaited promise has settled; between the pieces other
  handlers run. \<open>initializeOrJoinChannel\<close> of the main server has one \<open>await\<close>,
  \<open>await conversation.startSession()\<close>, between the test \<open>channelConversations.has\<close>
  and the two \<open>set\<close> calls. \<open>join_begin\<close> is the piece before it, \<open>join_resume\<close> the
  piece after it. The conversation that \<open>createConversation(id, ws)\<close> returns carries
  the id it was asked for; a creation that throws is one whose outcome is \<open>Rejects\<close>.
\<close>

definition join_begin :: "env \<Rightarrow> ws \<Rightarrow> channel_id \<Rightarrow> server \<Rightarrow> server \<times> effect list" where
  "join_begin e w conversationId st =
     (case channelConversations st conversationId of
        Some conv \<Rightarrow> attach w conv False st
      | None \<Rightarrow>
          if call_outcome e (CreateConversation conversationId w) = Rejects
          then (st, Call (CreateConversation conversationId w) # join_failed w EngineError)
          else
            (let conv = \<lparr>conv_id = conversationId, handle = created st\<rparr>
             in (st\<lparr>created := Suc (created st), suspended := (suspended st)(w \<mapsto> conv)\<rparr>,
                 [Call (CreateConversation conversationId w),
                  Call (StartSession conversationId)])))"

definition join_resume :: "env \<Rightarrow> ws \<Rightarrow> server \<Rightarrow> server \<times> effect list" where
  "join_resume e w st =
     (case suspended st w of
        None \<Rightarrow> (st, [])
      | Some conv \<Rightarrow>
          (case call_outcome e (StartSession (conv_id conv)) of
             Hangs \<Rightarrow> (st, [])
           | Rejects \<Rightarrow> (st\<lparr>suspended := (suspended st)(w := None)\<rparr>, join_failed w EngineError)
           | Resolves \<Rightarrow>
               attach w conv True
                 (st\<lparr>suspended := (suspended st)(w := None),
                     channelConversations := (channelConversations st)(conv_id conv \<mapsto> conv),
                     channelClients := (channelClients st)(conv_id conv \<mapsto> [])\<rparr>)))"

text \<open>
  The first server registers the session before its first \<open>await\<close>:
  \<open>createStreamSession\<close>, \<open>initiateSession\<close>, the two \<open>set\<close> calls and the event
  handlers come in one piece with the test, and the three awaited setup calls follow.
  \<open>initiateSession\<close> is not awaited: how it ends does not reach this function.
\<close>

definition join_begin_legacy ::
  "env \<Rightarrow> ws \<Rightarrow> channel_id \<Rightarrow> server \<Rightarrow> server \<times> effect list"
where
  "join_begin_legacy e w channelId st =
     (case channelConversations st channelId of
        Some session \<Rightarrow> attach w session False st
      | None \<Rightarrow>
          if call_outcome e (CreateStreamSession channelId) = Rejects
          then (st, Call (CreateStreamSession channelId) # join_failed w EngineError)
          else
            (let session = \<lparr>conv_id = channelId, handle = created st\<rparr>
             in (st\<lparr>created := Suc (created st),
                    channelConversations := (channelConversations st)(channelId \<mapsto> session),
                    channelClients := (channelClients st)(channelId \<mapsto> []),
                    suspended := (suspended st)(w \<mapsto> session)\<rparr>,
                 [Call (CreateStreamSession channelId), Call (InitiateSession channelId),
                  Call SetupPromptStart])))"

definition legacy_system_prompt :: jsval where
  "legacy_system_prompt =
     JStr (''You are Telly, an AI assistant having a voice conversation. ''
           @ ''Keep responses concise and conversational. ''
           @ ''You can help this customer with lots of things, including getting their ''
           @ ''account info, managing billing, and doing device trade-ins'')"

definition join_resume_legacy :: "env \<Rightarrow> ws \<Rightarrow> server \<Rightarrow> server \<times> effect list" where
  "join_resume_legacy e w st =
     (case suspended st w of
        None \<Rightarrow> (st, [])
      | Some session \<Rightarrow>
          (let setup = seq_then
                         (case call_outcome e SetupPromptStart of
                            Resolves \<Rightarrow> ([], Fulfilled)
                          | Rejects \<Rightarrow> ([], Rejected EngineError)
                          | Hangs \<Rightarrow> ([], Pending))
                         (seq_then (await_call e (SetupSystemPrompt legacy_system_prompt))
                                   (await_call e SetupStartAudio))
           in case snd setup of
                Pending \<Rightarrow> (st, fst setup)
              | Rejected err \<Rightarrow>
                  (st\<lparr>suspended := (suspended st)(w := None)\<rparr>, fst setup @ join_failed w err)
              | Fulfilled \<Rightarrow>
                  (let r = attach w session True (st\<lparr>suspended := (suspended st)(w := None)\<rparr>)
                   in (fst r, fst setup @ snd r))))"

text \<open>A schedule: the order in which the pieces of the joins run.\<close>

datatype join_event = JoinBegin ws channel_id | JoinResume ws

fun join_step :: "server_variant \<Rightarrow> env \<Rightarrow> join_event \<Rightarrow> server \<Rightarrow> server \<times> effect list" where
  "join_step Main e (JoinBegin w cid) st = join_begin e w cid st"
| "join_step Main e (JoinResume w) st = join_resume e w st"
| "join_step Legacy e (JoinBegin w cid) st = join_begin_legacy e w cid st"
| "join_step Legacy e (JoinResume w) st = join_resume_legacy e w st"

fun run_joins ::
  "server_variant \<Rightarrow> env \<Rightarrow> join_event list \<Rightarrow> server \<Rightarrow> server \<times> effect list"
where
  "run_joins v e [] st = (st, [])"
| "run_joins v e (ev # evs) st =
     (let r = join_step v e ev st;
          r' = run_joins v e evs (fst r)
      in (fst r', snd r @ snd r'))"

fun engine_calls :: "effect list \<Rightarrow> engine_call list" where
  "engine_calls [] = []"
| "engine_calls (Call c # es) = c # engine_calls es"
| "engine_calls (x # es) = engine_calls es"

subsection \<open>Leaving\<close>

text \<open>
  \<open>handleClose\<close> awaits a race between an async block, which awaits
  \<open>session.endAudioContent()\<close>, \<open>session.endPrompt()\<close> and \<open>session.close()\<close> in this
  order, and a timer of 3000 ms that rejects with "Session cleanup timeout". The block
  makes its first call in the same piece as the code before the race.

  \<open>raced e c rest\<close> is the race from the moment call \<open>c\<close> has been made, with the calls
  \<open>rest\<close> still to come: the calls made until the race settles, how it settles, and the
  calls the block goes on to make after the race has settled. The timer settles the race
  when it fires while a call is awaited, or when a call never comes back; the block is not
  cancelled by it, and when the awaited call resolves afterwards the block makes its
  remaining calls in the background.
\<close>

fun background :: "env \<Rightarrow> engine_call list \<Rightarrow> effect list" where
  "background e [] = []"
| "background e (c # cs) =
     Call c # (if call_outcome e c = Resolves then background e cs else [])"

fun raced :: "env \<Rightarrow> engine_call \<Rightarrow> engine_call list \<Rightarrow> effect list \<times> settle \<times> effect list" where
  "raced e c [] =
     (if late e c \<or> call_outcome e c = Hangs then ([], Rejected CleanupTimeout, [])
      else if call_outcome e c = Rejects then ([], Rejected EngineError, [])
      else ([], Fulfilled, []))"
| "raced e c (c' # rest) =
     (if late e c \<or> call_outcome e c = Hangs then
        ([], Rejected CleanupTimeout,
         if call_outcome e c = Resolves then background e (c' # rest) else [])
      else if call_outcome e c = Rejects then ([], Rejected EngineError, [])
      else (let r = raced e c' rest in (Call c' # fst r, fst (snd r), snd (snd r))))"

text \<open>
  What follows the race, up to the end of the \<open>if\<close> block:
  \<^verbatim>\<open>
  try { await Promise.race([...]); console.log("Successfully cleaned up channel") }
  catch (error) {
    console.error("Error cleaning up channel", error);
    try { bedrockClient.closeSession(id); console.log("Force closed session") }
    catch (e) { console.error("Failed to force close session", e) }
  }
  \<close>
  The first component is what \<open>handleClose\<close> does before it goes on to the registry, the
  second what the block of the race does in the background afterwards.
\<close>

definition teardown_settled ::
  "server_variant \<Rightarrow> env \<Rightarrow> channel_id \<Rightarrow> effect list \<times> effect list"
where
  "teardown_settled v e cid =
     (let r = raced e EndAudioContent [EndPrompt, Close]
      in case fst (snd r) of
           Fulfilled \<Rightarrow> (fst r @ [Log ''Successfully cleaned up channel''], [])
         | Pending \<Rightarrow> (fst r, [])
         | Rejected err \<Rightarrow>
             (fst r @ [ErrorLog ''Error cleaning up channel'', Call (client_close v cid)]
              @ (if close_throws v e cid
                 then [ErrorLog ''Failed to force close session'']
                 else [Log ''Force closed session'']),
              snd (snd r)))"

definition no_channel_log :: effect where
  "no_channel_log = Log ''No channel to clean up for this connection''"

text \<open>
  \<open>handleClose\<close> in two pieces. \<open>handleClose_begin\<close> runs from the start to the
  \<open>await\<close> of the race, or to the end when the race is not entered; its third result
  says whether the call now waits at the \<open>await\<close>. \<open>clients.delete(ws)\<close> is in this
  piece; \<open>channelConversations.delete\<close>, \<open>channelClients.delete\<close> and
  \<open>clientChannels.delete(ws)\<close> of a waiting call are in \<open>handleClose_resume\<close>, which
  runs when the race has settled. \<open>if (!conversationId)\<close> holds for a missing entry and
  for the empty string.
\<close>

definition handleClose_begin ::
  "server_variant \<Rightarrow> bedrock \<Rightarrow> ws \<Rightarrow> server \<Rightarrow> server \<times> effect list \<times> bool"
where
  "handleClose_begin v bc w st =
     (case clientChannels st w of
        None \<Rightarrow> (st, [no_channel_log], False)
      | Some cid \<Rightarrow>
          if cid = [] then (st, [no_channel_log], False)
          else
            (case channelClients st cid of
               None \<Rightarrow> (st\<lparr>clientChannels := (clientChannels st)(w := None)\<rparr>, [], False)
             | Some clients \<Rightarrow>
                 (let remaining = Set_delete w clients;
                      st1 = st\<lparr>channelClients := (channelClients st)(cid \<mapsto> remaining)\<rparr>
                  in if remaining = [] then
                       (if channelConversations st cid \<noteq> None \<and> isSessionActive bc cid then
                          (st1\<lparr>closing := closing st @ [(w, cid)]\<rparr>,
                           [Log ''Client disconnected'', Log ''Last client left channel'',
                            Call EndAudioContent],
                           True)
                        else
                          (st\<lparr>channelConversations := (channelConversations st)(cid := None),
                              channelClients := (channelClients st)(cid := None),
                              clientChannels := (clientChannels st)(w := None)\<rparr>,
                           [Log ''Client disconnected'', Log ''Last client left channel'',
                            RegistryDelete cid],
                           False))
                     else
                       (st1\<lparr>clientChannels := (clientChannels st)(w := None)\<rparr>,
                        [Log ''Client disconnected''], False))))"

definition handleClose_resume ::
  "server_variant \<Rightarrow> env \<Rightarrow> ws \<Rightarrow> channel_id \<Rightarrow> server \<Rightarrow> server \<times> effect list"
where
  "handleClose_resume v e w cid st =
     (let t = teardown_settled v e cid
      in (st\<lparr>closing := remove1 (w, cid) (closing st),
             channelConversations := (channelConversations st)(cid := None),
             channelClients := (channelClients st)(cid := None),
             clientChannels := (clientChannels st)(w := None)\<rparr>,
          fst t @ [RegistryDelete cid] @ snd t))"

text \<open>One call of \<open>handleClose\<close> from start to end, with nothing running in between.\<close>

definition handleClose ::
  "server_variant \<Rightarrow> env \<Rightarrow> bedrock \<Rightarrow> ws \<Rightarrow> server \<Rightarrow> server \<times> effect list"
where
  "handleClose v e bc w st =
     (let b = handleClose_begin v bc w st
      in if snd (snd b) then
           (case clientChannels st w of
              Some cid \<Rightarrow>
                (let r = handleClose_resume v e w cid (fst b)
                 in (fst r, fst (snd b) @ snd r))
            | None \<Rightarrow> (fst b, fst (snd b)))
         else (fst b, fst (snd b)))"

text \<open>A schedule of the pieces of several calls of \<open>handleClose\<close>.\<close>

datatype close_event = CloseBegin ws | CloseResume ws

fun close_step ::
  "server_variant \<Rightarrow> env \<Rightarrow> bedrock \<Rightarrow> close_event \<Rightarrow> server \<Rightarrow> server \<times> effect list"
where
  "close_step v e bc (CloseBegin w) st =
     (let b = handleClose_begin v bc w st in (fst b, fst (snd b)))"
| "close_step v e bc (CloseResume w) st =
     (case find (\<lambda>p. fst p = w) (closing st) of
        None \<Rightarrow> (st, [])
      | Some p \<Rightarrow> handleClose_resume v e w (snd p) st)"

fun run_closes ::
  "server_variant \<Rightarrow> env \<Rightarrow> bedrock \<Rightarrow> close_event list \<Rightarrow> server \<Rightarrow> server \<times> effect list"
where
  "run_closes v e bc [] st = (st, [])"
| "run_closes v e bc (ev # evs) st =
     (let r = close_step v e bc ev st;
          r' = run_closes v e bc evs (fst r)
      in (fst r', snd r @ snd r'))"

text \<open>The effects of a run up to the removal of a channel from the registry.\<close>

definition before_removal :: "channel_id \<Rightarrow> effect list \<Rightarrow> effect list" where
  "before_removal cid es = takeWhile (\<lambda>x. x \<noteq> RegistryDelete cid) es"

definition graceful_call :: "engine_call \<Rightarrow> bool" where
  "graceful_call c = (c = EndAudioContent \<or> c = EndPrompt \<or> c = Close)"

text \<open>A call of the graceful sequence does not come back in time, or comes back rejected.\<close>

definition fails :: "env \<Rightarrow> engine_call \<Rightarrow> bool" where
  "fails e c = (late e c \<or> call_outcome e c \<noteq> Resolves)"

subsection \<open>The periodic sweep\<close>

text \<open>
  The body of the \<open>setInterval\<close> callback, run at time \<open>now\<close> (milliseconds). It walks
  the sessions the engine client reports as active and reads nothing else; the three maps
  of the server do not occur in it.
\<close>

definition fiveMinsInMs :: int where
  "fiveMinsInMs = 5 * 60 * 1000"

definition sweep_session :: "server_variant \<Rightarrow> env \<Rightarrow> bedrock \<Rightarrow> int \<Rightarrow> channel_id \<Rightarrow> effect list" where
  "sweep_session v e bc now sessionId =
     (let lastActivity = getLastActivityTime bc sessionId
      in if now - lastActivity > fiveMinsInMs
         then [Log ''Closing inactive session'', Call (client_close v sessionId)]
              @ (if close_throws v e sessionId
                 then [ErrorLog ''Error force closing inactive session''] else [])
         else [])"

definition sweep ::
  "server_variant \<Rightarrow> env \<Rightarrow> bedrock \<Rightarrow> int \<Rightarrow> server \<Rightarrow> server \<times> effect list"
where
  "sweep v e bc now st =
     (st, Log ''Running session cleanup check''
          # concat (map (sweep_session v e bc now) (getActiveSessions bc)))"

subsection \<open>Routing a message\<close>

text \<open>
  \<open>handleMessage\<close> of the main server. Each integration that is on is tried in turn on
  the same message, then the control-message handler. For Vonage the server calls
  \<open>vonage.tryProcessAudioInput(msg, conversation)\<close>, and the \<open>VonageIntegration\<close> class
  among the sources has no method of this name: what the call does is the parameter
  \<open>vonage_in\<close>, which gives for a message the calls made on the conversation and how the
  call ends (for a method that is missing: no call, and a TypeError).
  \<open>handleMessage_body\<close> is the \<open>try\<close> block; the catch block around it reports to the
  client.
\<close>

definition handleMessage_body ::
  "integrations \<Rightarrow> env \<Rightarrow> (raw_msg \<Rightarrow> engine_call list \<times> settle) \<Rightarrow> raw_msg
     \<Rightarrow> effect list \<times> settle"
where
  "handleMessage_body cfg e vonage_in msg =
     seq_then (if browser_isOn cfg
               then browser_tryProcessAudioInput (browser_isOn cfg) e msg
               else ([], Fulfilled))
       (seq_then (if vonage_isOn cfg
                  then (map Call (fst (vonage_in msg)), snd (vonage_in msg))
                  else ([], Fulfilled))
         (seq_then (if twilio_isOn cfg
                    then twilio_tryProcessAudioInput (twilio_isOn cfg) e msg
                    else ([], Fulfilled))
           (tryProcessNovaSonicMessage e msg)))"

definition handleMessage ::
  "integrations \<Rightarrow> env \<Rightarrow> (raw_msg \<Rightarrow> engine_call list \<times> settle) \<Rightarrow> ws \<Rightarrow> raw_msg \<Rightarrow> server
     \<Rightarrow> effect list \<times> settle"
where
  "handleMessage cfg e vonage_in w msg st =
     (case clientChannels st w of
        None \<Rightarrow> (sendError w ''Channel not found'' ''No active channel for this connection'',
                 Fulfilled)
      | Some conversationId \<Rightarrow>
          if conversationId = [] then
            (sendError w ''Channel not found'' ''No active channel for this connection'',
             Fulfilled)
          else
            (case channelConversations st conversationId of
               None \<Rightarrow>
                 (sendError w ''Conversation not found''
                    ''No active conversation for this channel'', Fulfilled)
             | Some conversation \<Rightarrow>
                 try_catch (handleMessage_body cfg e vonage_in msg)
                   (\<lambda>err. sendError w ''Error processing message'' (error_text err))))"

section \<open>Concrete inputs\<close>

text \<open>
  An environment and events for the concrete runs below: a companding that keeps the high
  byte of a sample, an engine whose calls all resolve, and the event that carries given
  samples as base64 content.
\<close>

definition demo_env :: env where
  "demo_env =
     \<lparr>encodeSample = (\<lambda>s. ucast (drop_bit 8 s)),
      decodeSample = (\<lambda>b. push_bit 8 (ucast b)),
      buffer_from_other = (\<lambda>v. Inl TypeError),
      call_outcome = (\<lambda>c. Resolves),
      late = (\<lambda>c. False)\<rparr>"

definition pcm_event :: "int16 list \<Rightarrow> event_data" where
  "pcm_event samples = [(''content'', JStr (b64encode (Buffer_of_Int16Array samples)))]"

definition twilio_only :: integrations where
  "twilio_only = \<lparr>browser_isOn = False, vonage_isOn = False, twilio_isOn = True\<rparr>"

definition quiet_bedrock :: bedrock where
  "quiet_bedrock =
     \<lparr>getActiveSessions = [''c1''], getLastActivityTime = (\<lambda>sessionId. 0),
      isSessionActive = (\<lambda>sessionId. True)\<rparr>"

definition closed_bedrock :: bedrock where
  "closed_bedrock =
     \<lparr>getActiveSessions = [], getLastActivityTime = (\<lambda>sessionId. 0),
      isSessionActive = (\<lambda>sessionId. False)\<rparr>"

definition one_channel :: server where
  "one_channel =
     \<lparr>channelConversations = [''c1'' \<mapsto> \<lparr>conv_id = ''c1'', handle = 0\<rparr>],
      channelClients = [''c1'' \<mapsto> [1]],
      clientChannels = [1 \<mapsto> ''c1''],
      created = 1, suspended = Map.empty, closing = []\<rparr>"

definition browser_only :: integrations where
  "browser_only = \<lparr>browser_isOn = True, vonage_isOn = False, twilio_isOn = False\<rparr>"

definition vonage_missing :: "raw_msg \<Rightarrow> engine_call list \<times> settle" where
  "vonage_missing msg = ([], Rejected TypeError)"

definition prompt_end_rejects :: env where
  "prompt_end_rejects =
     demo_env\<lparr>call_outcome := (\<lambda>c. if c = EndPrompt then Rejects else Resolves)\<rparr>"

definition slow_audio_end :: env where
  "slow_audio_end = demo_env\<lparr>late := (\<lambda>c. c = EndAudioContent)\<rparr>"

definition all_open :: "ws \<Rightarrow> ready_state" where
  "all_open c = OPEN"

section \<open>Base64 carries the bytes\<close>

lemma b64index_b64char: "n < 64 \<Longrightarrow> b64index (b64char n) = n"
  by (auto simp: b64index_def b64char_def Let_def)

lemma b64char_not_pad: "n < 64 \<Longrightarrow> b64char n \<noteq> CHR ''=''"
proof
  assume n: "n < 64" and eq: "b64char n = CHR ''=''"
  from eq have "(of_char (b64char n) :: nat) = 61" by simp
  with n show False by (auto simp: b64char_def split: if_splits)
qed

lemma byte_lt: "unat (a :: byte) < 256"
  using unsigned_less [of a, where ?'a = nat] by simp

lemma sextet_bounds:
  "sextet1 a < 64" "sextet2 a b < 64" "sextet3 b c < 64" "sextet4 c < 64"
  using byte_lt [of a] byte_lt [of b] byte_lt [of c]
  by (simp_all add: sextet1_def sextet2_def sextet3_def sextet4_def)

lemma nat_unpack1:
  "y < 256 \<Longrightarrow> (x div 4) * 4 + ((x mod 4) * 16 + y div 16) div 16 = (x::nat)"
  by simp

lemma nat_unpack2:
  "y < 256 \<Longrightarrow> z < 256 \<Longrightarrow>
   (((x mod 4) * 16 + y div 16) mod 16) * 16 + ((y mod 16) * 4 + z div 64) div 4 = (y::nat)"
  by simp

lemma nat_unpack3:
  "z < 256 \<Longrightarrow> (((y mod 16) * 4 + z div 64) mod 4) * 64 + z mod 64 = (z::nat)"
  by simp

lemma octet1_sextets: "octet1 (sextet1 a) (sextet2 a b) = a"
  unfolding octet1_def sextet1_def sextet2_def
  by (simp only: nat_unpack1 [OF byte_lt]) simp

lemma octet2_sextets: "octet2 (sextet2 a b) (sextet3 b c) = b"
  unfolding octet2_def sextet2_def sextet3_def
  by (simp only: nat_unpack2 [OF byte_lt byte_lt]) simp

lemma octet3_sextets: "octet3 (sextet3 b c) (sextet4 c) = c"
  unfolding octet3_def sextet3_def sextet4_def
  by (simp only: nat_unpack3 [OF byte_lt]) simp

lemma b64legal_b64char: "n < 64 \<Longrightarrow> b64legal (b64char n)"
  by (auto simp: b64legal_def b64char_def Let_def)

lemma b64decode_group:
  assumes "n1 < 64" "n2 < 64" "n3 < 64" "n4 < 64"
  shows "b64decode (b64char n1 # b64char n2 # b64char n3 # b64char n4 # cs) =
         octet1 n1 n2 # octet2 n2 n3 # octet3 n3 n4 # b64decode cs"
  using assms by (simp add: b64decode_def b64char_not_pad b64legal_b64char b64index_b64char)

lemma b64decode_b64encode: "b64decode (b64encode bs) = bs"
proof (induction bs rule: b64encode.induct)
  case 1
  show ?case by (simp add: b64decode_def)
next
  case (2 a)
  show ?case
    by (simp add: b64decode_def b64char_not_pad b64legal_b64char b64index_b64char
        sextet_bounds octet1_sextets)
next
  case (3 a b)
  show ?case
    by (simp add: b64decode_def b64char_not_pad b64legal_b64char b64index_b64char
        sextet_bounds octet1_sextets octet2_sextets)
next
  case (4 a b c rest)
  then show ?case
    by (simp add: b64decode_group sextet_bounds octet1_sextets octet2_sextets octet3_sextets)
qed

lemma b64encode_eq_Nil: "b64encode bs = [] \<longleftrightarrow> bs = []"
  by (cases bs rule: b64encode.cases) simp_all

lemma Int16Array_of_Buffer: "Int16Array_of_buffer (Buffer_of_Int16Array samples) = samples"
proof (induction samples)
  case Nil
  show ?case by (simp add: Buffer_of_Int16Array_def)
next
  case (Cons s samples)
  have "int16_of_bytes (ucast s) (ucast (drop_bit 8 s)) = s"
    unfolding int16_of_bytes_def
    by (rule bit_word_eqI) (auto simp: bit_simps)
  with Cons show ?case by (simp add: Buffer_of_Int16Array_def)
qed

lemma length_Buffer_of_Int16Array: "length (Buffer_of_Int16Array samples) = 2 * length samples"
  by (induction samples) (simp_all add: Buffer_of_Int16Array_def)

section \<open>The Genesys round trip\<close>

lemma length_resample16kHzTo8kHz:
  "length (resample16kHzTo8kHz pcmSamples) = (length pcmSamples + 1) div 2"
  by (simp add: resample16kHzTo8kHz_def)

lemma nth_resample16kHzTo8kHz:
  "i < (length pcmSamples + 1) div 2 \<Longrightarrow> resample16kHzTo8kHz pcmSamples ! i = pcmSamples ! (2 * i)"
  by (simp add: resample16kHzTo8kHz_def mult.commute)

lemma genesys_loopback:
  assumes "pcmSamples \<noteq> []"
  shows "streamed (fst (genesys_tryProcessAudioInput True e
           (JSON_stringify (genesys_response e pcmSamples streamId)))) =
         [Buffer_of_Int16Array
           (mulaw_decode e (mulaw_encode e (resample16kHzTo8kHz pcmSamples)))]"
proof -
  have ne: "b64encode (mulaw_encode e (resample16kHzTo8kHz pcmSamples)) \<noteq> []"
    using assms
    by (simp add: b64encode_eq_Nil mulaw_encode_def resample16kHzTo8kHz_def)
  have disp: "genesys_dispatch e (JSON_stringify (genesys_response e pcmSamples streamId)) =
      await_call e (StreamAudio (PcmBytes (Buffer_of_Int16Array
           (mulaw_decode e (mulaw_encode e (resample16kHzTo8kHz pcmSamples))))))"
    using ne
    by (simp add: genesys_dispatch_def JSON_stringify_def genesys_response_def js_or_def
        genesys_audio_def Let_def b64decode_b64encode defined_props_def)
  show ?thesis
    by (simp add: genesys_tryProcessAudioInput_def disp try_catch_def await_call_def
        split: outcome.splits)
qed

text \<open>
  C7. A canonical frame of 320 samples, sent through the Genesys outbound path
  (every other sample, mulaw, base64, JSON envelope) to a client and fed back as an
  inbound message through the Genesys inbound path, reaches the engine as one buffer of
  exactly 160 samples: sample \<open>i\<close> is the decoded encoding of sample \<open>2 i\<close> of the frame.
\<close>

theorem genesys_roundtrip_sample_count:
  assumes "length frame = 320"
    and "Send c (TextMsg v) \<in> set (genesys_tryProcessAudioOutput True e readyState frame clients sid)"
  shows "\<exists>buf. streamed (fst (genesys_tryProcessAudioInput True e (JSON_stringify v))) = [buf]
           \<and> length (Int16Array_of_buffer buf) = 160
           \<and> Int16Array_of_buffer buf =
               map (\<lambda>i. decodeSample e (encodeSample e (frame ! (2 * i)))) [0..<160]"
proof -
  from assms(2) have v: "v = genesys_response e frame sid"
    by (auto simp: genesys_tryProcessAudioOutput_def forEach_send_def split: if_splits)
  from assms(1) have ne: "frame \<noteq> []" by auto
  let ?samples = "mulaw_decode e (mulaw_encode e (resample16kHzTo8kHz frame))"
  have s: "streamed (fst (genesys_tryProcessAudioInput True e (JSON_stringify v))) =
             [Buffer_of_Int16Array ?samples]"
    unfolding v by (rule genesys_loopback [OF ne])
  have m: "?samples = map (\<lambda>i. decodeSample e (encodeSample e (frame ! (2 * i)))) [0..<160]"
    using assms(1)
    by (simp add: mulaw_decode_def mulaw_encode_def resample16kHzTo8kHz_def mult.commute)
  have "Int16Array_of_buffer (Buffer_of_Int16Array ?samples) = ?samples"
    by (rule Int16Array_of_Buffer)
  with s m show ?thesis by simp
qed

theorem genesys_roundtrip_sample_count_witness:
  "length (replicate 320 (0::int16)) = 320
   \<and> Send 1 (TextMsg (genesys_response demo_env (replicate 320 0) JNull))
       \<in> set (genesys_tryProcessAudioOutput True demo_env (\<lambda>c. OPEN) (replicate 320 0) [1] JNull)
   \<and> (\<exists>buf. streamed (fst (genesys_tryProcessAudioInput True demo_env
               (JSON_stringify (genesys_response demo_env (replicate 320 0) JNull)))) = [buf]
           \<and> length (Int16Array_of_buffer buf) = 160)"
proof -
  have h1: "length (replicate 320 (0::int16)) = 320" by simp
  have h2: "Send 1 (TextMsg (genesys_response demo_env (replicate 320 0) JNull))
       \<in> set (genesys_tryProcessAudioOutput True demo_env (\<lambda>c. OPEN) (replicate 320 0) [1] JNull)"
    by (simp add: genesys_tryProcessAudioOutput_def forEach_send_def)
  from genesys_roundtrip_sample_count [OF h1 h2] h1 h2 show ?thesis by blast
qed

section \<open>The chunking loop and the sends\<close>

lemma forEach_send_filter:
  "forEach_send readyState clients m =
     map (\<lambda>c. Send c m) (filter (\<lambda>c. readyState c = OPEN) clients)"
  by (induction clients) (simp_all add: forEach_send_def)

lemma send_chunks_stop:
  "length samples < offset + 320 \<Longrightarrow> send_chunks rs cl samples offset = ([], offset)"
  by (subst send_chunks.simps) (simp add: SAMPLES_PER_CHUNK_def CHUNK_SIZE_BYTES_def)

lemma send_chunks_step:
  "offset + 320 \<le> length samples \<Longrightarrow>
   send_chunks rs cl samples offset =
     (forEach_send rs cl (BinaryMsg (take 320 (drop offset samples)))
        @ fst (send_chunks rs cl samples (offset + 320)),
      snd (send_chunks rs cl samples (offset + 320)))"
  by (subst send_chunks.simps)
     (simp add: SAMPLES_PER_CHUNK_def CHUNK_SIZE_BYTES_def Int16Array_slice_def Let_def)

lemma map_upt_Suc_shift: "map f [0..<Suc n] = f 0 # map (\<lambda>k. f (Suc k)) [0..<n]"
  by (simp add: map_upt_Suc del: upt_Suc)

lemma send_chunks_fst:
  "fst (send_chunks rs cl samples offset) =
     concat (map (\<lambda>k. forEach_send rs cl (BinaryMsg (take 320 (drop (offset + 320 * k) samples))))
                 [0..<(length samples - offset) div 320])"
proof (induction rs cl samples offset rule: send_chunks.induct)
  case (1 rs cl samples offset)
  show ?case
  proof (cases "offset + 320 \<le> length samples")
    case True
    then have n: "(length samples - offset) div 320 = Suc ((length samples - (offset + 320)) div 320)"
      using le_div_geq [of 320 "length samples - offset"] by (simp add: diff_diff_left)
    have ih: "fst (send_chunks rs cl samples (offset + 320)) =
       concat (map (\<lambda>k. forEach_send rs cl (BinaryMsg (take 320 (drop (offset + 320 + 320 * k) samples))))
                 [0..<(length samples - (offset + 320)) div 320])"
      using "1.IH" [OF _ refl] True
      by (simp add: SAMPLES_PER_CHUNK_def CHUNK_SIZE_BYTES_def)
    show ?thesis
      unfolding n map_upt_Suc_shift
      by (simp add: send_chunks_step [OF True] ih add.assoc)
  next
    case False
    then show ?thesis by (simp add: send_chunks_stop)
  qed
qed

lemma send_chunks_snd:
  "snd (send_chunks rs cl samples offset) = offset + 320 * ((length samples - offset) div 320)"
proof (induction rs cl samples offset rule: send_chunks.induct)
  case (1 rs cl samples offset)
  show ?case
  proof (cases "offset + 320 \<le> length samples")
    case True
    then have n: "(length samples - offset) div 320 = Suc ((length samples - (offset + 320)) div 320)"
      using le_div_geq [of 320 "length samples - offset"] by (simp add: diff_diff_left)
    have ih: "snd (send_chunks rs cl samples (offset + 320)) =
       offset + 320 + 320 * ((length samples - (offset + 320)) div 320)"
      using "1.IH" [OF _ refl] True
      by (simp add: SAMPLES_PER_CHUNK_def CHUNK_SIZE_BYTES_def)
    show ?thesis
      unfolding n by (simp add: send_chunks_step [OF True] ih)
  next
    case False
    then show ?thesis by (simp add: send_chunks_stop)
  qed
qed

lemma length_Int16Array_of_buffer: "length (Int16Array_of_buffer bs) = length bs div 2"
  by (induction bs rule: Int16Array_of_buffer.induct) simp_all

lemma only_open_append: "only_open rs cl (xs @ ys) \<longleftrightarrow> only_open rs cl xs \<and> only_open rs cl ys"
  by (simp add: only_open_def)

lemma only_open_forEach_send: "only_open rs cl (forEach_send rs cl m)"
  by (simp add: only_open_def forEach_send_filter list_all_iff)

lemma only_open_send_chunks: "only_open rs cl (fst (send_chunks rs cl samples offset))"
  by (simp add: send_chunks_fst only_open_def list_all_iff forEach_send_filter) 


lemma binary_frames_to_append:
  "binary_frames_to c (xs @ ys) = binary_frames_to c xs @ binary_frames_to c ys"
  by (induction c xs rule: binary_frames_to.induct) simp_all

lemma text_messages_to_append:
  "text_messages_to c (xs @ ys) = text_messages_to c xs @ text_messages_to c ys"
  by (induction c xs rule: text_messages_to.induct) simp_all

lemma audioOutput_unfold:
  assumes "data_content data = JStr content"
  shows "audioOutput cfg e rs got sid data =
    (let pcmSamples = Int16Array_of_buffer (b64decode content);
         clients = clients_or_empty got
     in (concat (map (\<lambda>k. forEach_send rs clients
                          (BinaryMsg (take 320 (drop (320 * k) pcmSamples))))
                     [0..<length pcmSamples div 320])
         @ (if twilio_isOn cfg
            then forEach_send rs clients (TextMsg (twilio_response e pcmSamples sid)) else [])
         @ (if browser_isOn cfg
            then forEach_send rs clients (TextMsg (event_envelope ''audioOutput'' data)) else []),
         Inr ()))"
  using assms
  by (simp add: audioOutput_def Let_def send_chunks_fst twilio_tryProcessAudioOutput_def
      browser_tryProcessAudioOutput_def)

lemma upt_0_2: "[0..<2] = [0, Suc 0]"
  by (simp add: upt_rec)

lemma audioOutput_legacy_unfold:
  assumes "data_content data = JStr content"
  shows "fst (audioOutput_legacy e rs got data) =
    (let pcmSamples = Int16Array_of_buffer (b64decode content);
         clients = clients_or_empty got
     in forEach_send rs clients (TextMsg (event_envelope ''audioOutput'' data))
        @ concat (map (\<lambda>k. forEach_send rs clients
                          (BinaryMsg (take 320 (drop (320 * k) pcmSamples))))
                     [0..<length pcmSamples div 320]))"
  using assms
  by (simp add: audioOutput_legacy_def Let_def send_chunks_fst useJson_def useVonage_def
      vonage_block_def)

lemma data_content_pcm_event:
  "data_content (pcm_event samples) = JStr (b64encode (Buffer_of_Int16Array samples))"
  by (simp add: pcm_event_def data_content_def)

lemma legacy_one_event_480:
  "binary_frames_to 1 (fst (audioOutput_legacy e (\<lambda>c. OPEN) (Some [1]) (pcm_event (replicate 480 x))))
    = [replicate 320 x]"
  by (simp add: audioOutput_legacy_unfold [OF data_content_pcm_event] b64decode_b64encode
      Int16Array_of_Buffer Let_def clients_or_empty_def forEach_send_def)

lemma main_one_event_480:
  "binary_frames_to 1 (fst (audioOutput cfg e (\<lambda>c. OPEN) (Some [1]) sid (pcm_event (replicate 480 x))))
    = [replicate 320 x]"
  by (simp add: audioOutput_unfold [OF data_content_pcm_event] b64decode_b64encode
      Int16Array_of_Buffer Let_def clients_or_empty_def forEach_send_def)

lemma carried_two_events:
  "binary_frames_to 1 (carried_framer (\<lambda>c. OPEN) [1] None [replicate 480 1, replicate 480 2])
    = [replicate 320 1, replicate 160 1 @ replicate 160 2, replicate 320 2]"
  by (simp add: vonage_block_def Let_def send_chunks_fst send_chunks_snd forEach_send_def
      upt_0_2 binary_frames_to_append)

section \<open>One Twilio client, two frames\<close>

lemma length_media_payload_twilio:
  "length (media_payload (twilio_response e pcmSamples sid)) = (length pcmSamples + 1) div 2"
  by (simp add: media_payload_def twilio_response_def Let_def b64decode_b64encode
      mulaw_encode_def length_resample16kHzTo8kHz defined_props_def)

lemma audioOutput_two_frames:
  assumes "length bytes = 1280"
    and "data_content data = JStr (b64encode bytes)"
    and "rs c = OPEN"
  shows "fst (audioOutput \<lparr>browser_isOn = False, vonage_isOn = v, twilio_isOn = True\<rparr>
                e rs (Some [c]) sid data) =
         [Send c (BinaryMsg (take 320 (Int16Array_of_buffer bytes))),
          Send c (BinaryMsg (drop 320 (Int16Array_of_buffer bytes))),
          Send c (TextMsg (twilio_response e (Int16Array_of_buffer bytes) sid))]"
proof -
  have len: "length (Int16Array_of_buffer bytes) = 640"
    using assms(1) by (simp add: length_Int16Array_of_buffer)
  show ?thesis
    using assms(3) len
    by (simp add: audioOutput_unfold [OF assms(2)] b64decode_b64encode Let_def
        clients_or_empty_def forEach_send_def upt_0_2)
qed

text \<open>
  C6, as the code has it. An \<open>audioOutput\<close> event of 1280 bytes, on a channel whose one
  client is open, with the Twilio integration on and the browser integration off: the
  client is sent the two canonical chunks of 320 samples as binary messages, and then one
  Twilio media message, made from the whole event, whose payload is 320 mulaw samples.
\<close>

theorem twilio_client_1280_bytes:
  assumes "length bytes = 1280"
    and "data_content data = JStr (b64encode bytes)"
    and "readyState c = OPEN"
  shows "fst (audioOutput \<lparr>browser_isOn = False, vonage_isOn = v, twilio_isOn = True\<rparr>
                e readyState (Some [c]) sid data) =
         [Send c (BinaryMsg (take 320 (Int16Array_of_buffer bytes))),
          Send c (BinaryMsg (drop 320 (Int16Array_of_buffer bytes))),
          Send c (TextMsg (twilio_response e (Int16Array_of_buffer bytes) sid))]
       \<and> length (take 320 (Int16Array_of_buffer bytes)) = 320
       \<and> length (drop 320 (Int16Array_of_buffer bytes)) = 320
       \<and> length (media_payload (twilio_response e (Int16Array_of_buffer bytes) sid)) = 320"
  using assms audioOutput_two_frames [where rs = readyState and c = c, OF assms]
  by (simp add: length_media_payload_twilio length_Int16Array_of_buffer)

theorem twilio_client_1280_bytes_witness:
  "length (replicate 1280 (0::byte)) = 1280
   \<and> data_content [(''content'', JStr (b64encode (replicate 1280 0)))]
       = JStr (b64encode (replicate 1280 0))
   \<and> (\<lambda>c::ws. OPEN) 1 = OPEN
   \<and> length (media_payload
        (twilio_response demo_env (Int16Array_of_buffer (replicate 1280 0)) (JStr ''MZ1''))) = 320"
proof -
  have h1: "length (replicate 1280 (0::byte)) = 1280" by simp
  have h2: "data_content [(''content'', JStr (b64encode (replicate 1280 0)))]
       = JStr (b64encode (replicate 1280 0))"
    by (simp add: data_content_def)
  have h3: "(\<lambda>c::ws. OPEN) 1 = OPEN" by simp
  from twilio_client_1280_bytes
         [where readyState = "\<lambda>c. OPEN" and c = 1 and e = demo_env and sid = "JStr ''MZ1''",
          OF h1 h2 h3] h1 h2
  show ?thesis by simp
qed

text \<open>
  C6 as it is stated fails on 1280 zero bytes: the client gets one media message, of 320
  narrowband samples, not two of 160, and two binary canonical chunks beside it.
\<close>

theorem twilio_two_frames_counterexample:
  "map (length \<circ> media_payload)
     (text_messages_to 1 (fst (audioOutput twilio_only demo_env all_open (Some [1])
        (JStr ''MZ1'') [(''content'', JStr (b64encode (replicate 1280 0)))]))) = [320]
   \<and> map length
     (binary_frames_to 1 (fst (audioOutput twilio_only demo_env all_open (Some [1])
        (JStr ''MZ1'') [(''content'', JStr (b64encode (replicate 1280 0)))]))) = [320, 320]"
proof -
  have h1: "length (replicate 1280 (0::byte)) = 1280" by simp
  have h2: "data_content [(''content'', JStr (b64encode (replicate 1280 0)))]
       = JStr (b64encode (replicate 1280 0))"
    by (simp add: data_content_def)
  have h3: "all_open 1 = OPEN" by (simp add: all_open_def)
  show ?thesis
    unfolding twilio_only_def
      audioOutput_two_frames [where rs = all_open and c = 1, OF h1 h2 h3]
    by (simp add: length_media_payload_twilio length_Int16Array_of_buffer)
qed

section \<open>Fan-out of an audio event\<close>

text \<open>
  C5, as the code has it. For every \<open>audioOutput\<close> event: when its content does not
  decode, the handler throws and nothing is sent; otherwise every complete chunk of 320
  samples goes as it is to every open client of the channel, then each integration that is
  switched on encodes once, from the whole sample buffer of the event, and its one message
  goes to every open client as well. Which provider a client belongs to plays no part,
  and neither does the number of clients.
\<close>

theorem audioOutput_fanout:
  "audioOutput cfg e readyState got sid data =
     (case Buffer_from_base64 e (data_content data) of
        Inl err \<Rightarrow> ([], Inl err)
      | Inr buffer \<Rightarrow>
          (let pcmSamples = Int16Array_of_buffer buffer;
               clients = clients_or_empty got
           in (concat (map (\<lambda>k. forEach_send readyState clients
                                (BinaryMsg (take 320 (drop (320 * k) pcmSamples))))
                           [0..<length pcmSamples div 320])
               @ (if twilio_isOn cfg
                  then forEach_send readyState clients
                         (TextMsg (twilio_response e pcmSamples sid))
                  else [])
               @ (if browser_isOn cfg
                  then forEach_send readyState clients
                         (TextMsg (event_envelope ''audioOutput'' data))
                  else []),
               Inr ())))"
proof (cases "Buffer_from_base64 e (data_content data)")
  case (Inl err)
  then show ?thesis by (simp add: audioOutput_def Let_def)
next
  case (Inr buffer)
  then show ?thesis
    by (simp add: audioOutput_def Let_def send_chunks_fst twilio_tryProcessAudioOutput_def
        browser_tryProcessAudioOutput_def)
qed

theorem audioOutput_fanout_witness:
  "Buffer_from_base64 demo_env (data_content (pcm_event (replicate 320 7))) =
     Inr (Buffer_of_Int16Array (replicate 320 7))
   \<and> audioOutput twilio_only demo_env all_open (Some [1, 2]) JNull (pcm_event (replicate 320 7)) =
       ([Send 1 (BinaryMsg (replicate 320 7)), Send 2 (BinaryMsg (replicate 320 7)),
         Send 1 (TextMsg (twilio_response demo_env (replicate 320 7) JNull)),
         Send 2 (TextMsg (twilio_response demo_env (replicate 320 7) JNull))], Inr ())"
  using audioOutput_fanout [of twilio_only demo_env all_open "Some [1, 2]" JNull
      "pcm_event (replicate 320 7)"]
  by (simp add: data_content_pcm_event b64decode_b64encode Int16Array_of_Buffer Let_def
      clients_or_empty_def forEach_send_def twilio_only_def all_open_def)

text \<open>
  C5 as it is stated fails on an event of three frames (960 samples), two open clients
  and Twilio as the only integration: client 2 is sent the three canonical chunks as they
  are, and one provider-encoded message of 480 samples for the three frames.
\<close>

theorem audioOutput_encoding_counterexample:
  "map length (binary_frames_to 2
      (fst (audioOutput twilio_only demo_env all_open (Some [1, 2]) (JStr ''MZ1'')
              (pcm_event (replicate 960 0))))) = [320, 320, 320]
   \<and> map (length \<circ> media_payload) (text_messages_to 2
      (fst (audioOutput twilio_only demo_env all_open (Some [1, 2]) (JStr ''MZ1'')
              (pcm_event (replicate 960 0))))) = [480]"
  by (simp add: audioOutput_unfold [OF data_content_pcm_event] b64decode_b64encode
      Int16Array_of_Buffer Let_def clients_or_empty_def forEach_send_def twilio_only_def
      upt_rec length_media_payload_twilio all_open_def)

text \<open>
  C10. On every outbound path (structured events, \<open>streamComplete\<close>, canonical chunks,
  Twilio, Genesys and browser messages) the sends are exactly one per client of the
  channel whose \<open>readyState\<close> is \<open>OPEN\<close>, in the order of the set; a client in another
  state is passed over and the clients after it are still served. Both \<open>audioOutput\<close>
  handlers send to open clients of the channel only.
\<close>

theorem fanout_open_clients_only:
  "handleConversationEvent readyState got eventName data =
     map (\<lambda>c. Send c (TextMsg (event_envelope eventName data)))
         (filter (\<lambda>c. readyState c = OPEN) (clients_or_empty got))
   \<and> streamComplete readyState got =
     map (\<lambda>c. Send c (TextMsg (JObj [(''event'', JStr ''streamComplete'')])))
         (filter (\<lambda>c. readyState c = OPEN) (clients_or_empty got))
   \<and> fst (send_chunks readyState clients pcmSamples 0) =
     concat (map (\<lambda>k. map (\<lambda>c. Send c (BinaryMsg (take 320 (drop (320 * k) pcmSamples))))
                          (filter (\<lambda>c. readyState c = OPEN) clients))
                 [0..<length pcmSamples div 320])
   \<and> twilio_tryProcessAudioOutput True e readyState pcmSamples clients sid =
     map (\<lambda>c. Send c (TextMsg (twilio_response e pcmSamples sid)))
         (filter (\<lambda>c. readyState c = OPEN) clients)
   \<and> genesys_tryProcessAudioOutput True e readyState pcmSamples clients sid =
     map (\<lambda>c. Send c (TextMsg (genesys_response e pcmSamples sid)))
         (filter (\<lambda>c. readyState c = OPEN) clients)
   \<and> browser_tryProcessAudioOutput True readyState data clients =
     map (\<lambda>c. Send c (TextMsg (event_envelope ''audioOutput'' data)))
         (filter (\<lambda>c. readyState c = OPEN) clients)
   \<and> only_open readyState (clients_or_empty got) (fst (audioOutput cfg e readyState got sid data))
   \<and> only_open readyState (clients_or_empty got) (fst (audioOutput_legacy e readyState got data))"
proof -
  have main: "only_open readyState (clients_or_empty got)
                (fst (audioOutput cfg e readyState got sid data))"
    by (simp add: audioOutput_def Let_def only_open_append only_open_send_chunks
        only_open_forEach_send twilio_tryProcessAudioOutput_def
        browser_tryProcessAudioOutput_def only_open_def [of _ _ "[]"] split: sum.splits)
  have legacy: "only_open readyState (clients_or_empty got)
                (fst (audioOutput_legacy e readyState got data))"
    by (simp add: audioOutput_legacy_def Let_def only_open_append only_open_send_chunks
        only_open_forEach_send vonage_block_def useJson_def useVonage_def
        only_open_def [of _ _ "[]"] split: sum.splits)
  show ?thesis
    by (simp add: main legacy handleConversationEvent_def streamComplete_def Let_def
        forEach_send_filter send_chunks_fst twilio_tryProcessAudioOutput_def
        genesys_tryProcessAudioOutput_def browser_tryProcessAudioOutput_def)
qed

theorem fanout_open_clients_only_witness:
  "streamComplete (\<lambda>c. if c = 2 then CLOSED else OPEN) (Some [1, 2, 3]) =
     [Send 1 (TextMsg (JObj [(''event'', JStr ''streamComplete'')])),
      Send 3 (TextMsg (JObj [(''event'', JStr ''streamComplete'')]))]
   \<and> only_open (\<lambda>c. if c = 2 then CLOSED else OPEN) [1, 2, 3]
       (fst (audioOutput twilio_only demo_env (\<lambda>c. if c = 2 then CLOSED else OPEN)
               (Some [1, 2, 3]) JNull (pcm_event (replicate 320 7))))"
  using fanout_open_clients_only [of "\<lambda>c. if c = 2 then CLOSED else OPEN" "Some [1, 2, 3]"
      "''x''" "pcm_event (replicate 320 7)" "[]" "[]" demo_env JNull twilio_only]
  by (simp add: clients_or_empty_def)

section \<open>Leftover samples between events\<close>

text \<open>
  C2, on the code: two successive events of 480 samples each, one open client. Both
  handlers send the first 320 samples of each event and lose the other 160: the legacy
  handler because its \<open>audioBuffer\<close> is a variable of the call, the main handler because
  it keeps no leftover at all. A buffer carried across the events, as the claim has it,
  gives three chunks, the second made of the end of the first event and the start of the
  second.
\<close>

theorem audioOutput_leftover_not_carried:
  "binary_frames_to 1 (audioOutput_legacy_events demo_env (\<lambda>c. OPEN) (Some [1])
       [pcm_event (replicate 480 1), pcm_event (replicate 480 2)])
     = [replicate 320 1, replicate 320 2]
   \<and> binary_frames_to 1 (audioOutput_events twilio_only demo_env (\<lambda>c. OPEN) (Some [1]) JNull
       [pcm_event (replicate 480 1), pcm_event (replicate 480 2)])
     = [replicate 320 1, replicate 320 2]
   \<and> binary_frames_to 1 (carried_framer (\<lambda>c. OPEN) [1] None [replicate 480 1, replicate 480 2])
     = [replicate 320 1, replicate 160 1 @ replicate 160 2, replicate 320 2]"
proof (intro conjI)
  show "binary_frames_to 1 (audioOutput_legacy_events demo_env (\<lambda>c. OPEN) (Some [1])
       [pcm_event (replicate 480 1), pcm_event (replicate 480 2)])
     = [replicate 320 1, replicate 320 2]"
    by (simp only: audioOutput_legacy_events_def list.map concat.simps append_Nil2
        binary_frames_to_append legacy_one_event_480 append.simps)
  show "binary_frames_to 1 (audioOutput_events twilio_only demo_env (\<lambda>c. OPEN) (Some [1]) JNull
       [pcm_event (replicate 480 1), pcm_event (replicate 480 2)])
     = [replicate 320 1, replicate 320 2]"
    by (simp only: audioOutput_events_def list.map concat.simps append_Nil2
        binary_frames_to_append main_one_event_480 append.simps)
  show "binary_frames_to 1 (carried_framer (\<lambda>c. OPEN) [1] None [replicate 480 1, replicate 480 2])
     = [replicate 320 1, replicate 160 1 @ replicate 160 2, replicate 320 2]"
    by (rule carried_two_events)
qed

section \<open>Two joins for one new channel\<close>

text \<open>
  Where the two servers differ: after the first piece of a join for an unregistered
  channel, the first server has the channel in its registry and the main server has not.
\<close>

lemma join_begin_leaves_registry:
  "channelConversations st cid = None \<Longrightarrow>
   channelConversations (fst (join_begin e w cid st)) cid' = channelConversations st cid'"
  by (simp add: join_begin_def Let_def)

lemma join_begin_legacy_registers:
  "channelConversations st cid = None \<Longrightarrow>
   call_outcome e (CreateStreamSession cid) \<noteq> Rejects \<Longrightarrow>
   channelConversations (fst (join_begin_legacy e w cid st)) cid
     = Some \<lparr>conv_id = cid, handle = created st\<rparr>"
  by (simp add: join_begin_legacy_def Let_def)

lemma join_existing_creates_nothing:
  "channelConversations st cid = Some conv \<Longrightarrow>
   engine_calls (snd (join_begin e w cid st)) = []
   \<and> engine_calls (snd (join_begin_legacy e w cid st)) = []
   \<and> created (fst (join_begin e w cid st)) = created st
   \<and> created (fst (join_begin_legacy e w cid st)) = created st"
  by (simp add: join_begin_def join_begin_legacy_def attach_def join_failed_def sendError_def
      split: option.splits)

lemma sequential_join_creates_one:
  "created (fst (run_joins Main demo_env
      [JoinBegin 1 ''c1'', JoinResume 1, JoinBegin 2 ''c1''] empty_server)) = 1
   \<and> channelClients (fst (run_joins Main demo_env
      [JoinBegin 1 ''c1'', JoinResume 1, JoinBegin 2 ''c1''] empty_server)) ''c1''
       = Some [1, 2]"
  by (simp add: join_begin_def join_resume_def attach_def empty_server_def demo_env_def
      Let_def Set_add_def)

text \<open>
  C1, on the code. Clients 1 and 2 ask for the new channel \<open>c1\<close>, and the connection of
  client 2 is handled while \<open>startSession\<close> of client 1 is still awaited. In the main
  server both find the registry empty: two conversations are created, the second
  registration replaces the first and puts a fresh client set in place, so client 1, told
  \<open>sessionReady\<close>, is in no client set and its conversation is in no registry. The first
  server, which registers before it awaits, creates one session on the same schedule and
  has both clients in the set.
\<close>

theorem concurrent_join_creates_two:
  "created (fst (run_joins Main demo_env
      [JoinBegin 1 ''c1'', JoinBegin 2 ''c1'', JoinResume 1, JoinResume 2] empty_server)) = 2
   \<and> engine_calls (snd (run_joins Main demo_env
      [JoinBegin 1 ''c1'', JoinBegin 2 ''c1'', JoinResume 1, JoinResume 2] empty_server)) =
       [CreateConversation ''c1'' 1, StartSession ''c1'',
        CreateConversation ''c1'' 2, StartSession ''c1'']
   \<and> channelClients (fst (run_joins Main demo_env
      [JoinBegin 1 ''c1'', JoinBegin 2 ''c1'', JoinResume 1, JoinResume 2] empty_server)) ''c1''
       = Some [2]
   \<and> clientChannels (fst (run_joins Main demo_env
      [JoinBegin 1 ''c1'', JoinBegin 2 ''c1'', JoinResume 1, JoinResume 2] empty_server)) 1
       = Some ''c1''
   \<and> channelConversations (fst (run_joins Main demo_env
      [JoinBegin 1 ''c1'', JoinBegin 2 ''c1'', JoinResume 1, JoinResume 2] empty_server)) ''c1''
       = Some \<lparr>conv_id = ''c1'', handle = 1\<rparr>
   \<and> created (fst (run_joins Legacy demo_env
      [JoinBegin 1 ''c1'', JoinBegin 2 ''c1'', JoinResume 1, JoinResume 2] empty_server)) = 1
   \<and> channelClients (fst (run_joins Legacy demo_env
      [JoinBegin 1 ''c1'', JoinBegin 2 ''c1'', JoinResume 1, JoinResume 2] empty_server)) ''c1''
       = Some [2, 1]"
  by (simp add: join_begin_def join_resume_def join_begin_legacy_def join_resume_legacy_def
      attach_def empty_server_def demo_env_def Let_def Set_add_def seq_then_def await_call_def)

section \<open>Leaving a channel\<close>

lemma engine_calls_append: "engine_calls (xs @ ys) = engine_calls xs @ engine_calls ys"
  by (induction xs rule: engine_calls.induct) simp_all

lemma handleClose_never_attached:
  "clientChannels st w = None \<Longrightarrow> handleClose v e bc w st = (st, [no_channel_log])"
  by (simp add: handleClose_def handleClose_begin_def)

lemma handleClose_detaches:
  "clientChannels (fst (handleClose v e bc w st)) w = None
   \<or> clientChannels (fst (handleClose v e bc w st)) w = Some []"
  by (auto simp: handleClose_def handleClose_begin_def handleClose_resume_def Let_def
      split: option.splits)

lemma handleClose_detached:
  "clientChannels s w = None \<or> clientChannels s w = Some [] \<Longrightarrow>
   handleClose v e bc w s = (s, [no_channel_log])"
  by (auto simp: handleClose_def handleClose_begin_def)

text \<open>
  C9, as the code has it. A call of \<open>handleClose\<close> for a connection whose earlier call has
  run to its end, whatever that call did and whatever the engine answers, changes nothing
  and does nothing but log that there is no channel to clean up; so does a call for a
  connection that never joined.
\<close>

theorem handleClose_idempotent:
  "handleClose v' e' bc' w (fst (handleClose v e bc w st)) =
     (fst (handleClose v e bc w st), [no_channel_log])
   \<and> (clientChannels st w = None \<longrightarrow> handleClose v e bc w st = (st, [no_channel_log]))"
  using handleClose_detached [OF handleClose_detaches] handleClose_never_attached
  by simp

theorem handleClose_idempotent_witness:
  "clientChannels empty_server 5 = None
   \<and> handleClose Main demo_env quiet_bedrock 5 empty_server = (empty_server, [no_channel_log])
   \<and> handleClose Main demo_env quiet_bedrock 1
        (fst (handleClose Main demo_env quiet_bedrock 1 one_channel)) =
      (fst (handleClose Main demo_env quiet_bedrock 1 one_channel), [no_channel_log])"
  using handleClose_idempotent [of Main demo_env quiet_bedrock 5 Main demo_env quiet_bedrock
      empty_server]
    handleClose_idempotent [of Main demo_env quiet_bedrock 1 Main demo_env quiet_bedrock
      one_channel]
  by (simp add: empty_server_def)


text \<open>
  C9 as it is stated fails when the second call comes while the first is waiting at its
  \<open>await\<close>: \<open>clientChannels\<close> still holds the connection, the client set is still in
  the registry and empty, and the second call runs the teardown and the removal again.
\<close>

theorem overlapping_close_counterexample:
  "engine_calls (snd (run_closes Main demo_env quiet_bedrock
      [CloseBegin 1, CloseBegin 1, CloseResume 1, CloseResume 1] one_channel)) =
     [EndAudioContent, EndAudioContent, EndPrompt, Close, EndPrompt, Close]
   \<and> count_list (snd (run_closes Main demo_env quiet_bedrock
      [CloseBegin 1, CloseBegin 1, CloseResume 1, CloseResume 1] one_channel))
        (RegistryDelete ''c1'') = 2"
  by (simp add: handleClose_begin_def handleClose_resume_def teardown_settled_def
      one_channel_def quiet_bedrock_def demo_env_def Set_delete_def Let_def)


lemma RegistryDelete_not_in_background: "RegistryDelete c \<notin> set (background e cs)"
  by (induction cs) simp_all

lemma engine_calls_teardown_settled:
  "engine_calls (fst (teardown_settled v e cid)) =
     (if fails e EndAudioContent then [client_close v cid]
      else if fails e EndPrompt then [EndPrompt, client_close v cid]
      else if fails e Close then [EndPrompt, Close, client_close v cid]
      else [EndPrompt, Close])"
  by (cases "call_outcome e EndAudioContent"; cases "call_outcome e EndPrompt";
      cases "call_outcome e Close")
     (simp_all add: teardown_settled_def fails_def Let_def engine_calls_append)

lemma RegistryDelete_not_in_teardown_settled:
  "RegistryDelete c \<notin> set (fst (teardown_settled v e cid))
   \<and> RegistryDelete c \<notin> set (snd (teardown_settled v e cid))"
  by (cases "call_outcome e EndAudioContent"; cases "call_outcome e EndPrompt";
      cases "call_outcome e Close")
     (simp_all add: teardown_settled_def Let_def)

lemma teardown_settled_success:
  "\<not> fails e EndAudioContent \<Longrightarrow> \<not> fails e EndPrompt \<Longrightarrow> \<not> fails e Close \<Longrightarrow>
   snd (teardown_settled v e cid) = []"
  by (simp add: teardown_settled_def fails_def Let_def)

lemma handleClose_last_client:
  assumes "clientChannels st w = Some cid"
    and "cid \<noteq> []"
    and "channelClients st cid = Some [w]"
    and "channelConversations st cid = Some conv"
  shows "handleClose v e bc w st =
     (if isSessionActive bc cid then
        (st\<lparr>channelClients := (channelClients st)(cid \<mapsto> []),
            closing := remove1 (w, cid) (closing st @ [(w, cid)]),
            channelConversations := (channelConversations st)(cid := None),
            channelClients := ((channelClients st)(cid \<mapsto> []))(cid := None),
            clientChannels := (clientChannels st)(w := None)\<rparr>,
         [Log ''Client disconnected'', Log ''Last client left channel'', Call EndAudioContent]
         @ fst (teardown_settled v e cid) @ [RegistryDelete cid]
         @ snd (teardown_settled v e cid))
      else
        (st\<lparr>channelConversations := (channelConversations st)(cid := None),
            channelClients := (channelClients st)(cid := None),
            clientChannels := (clientChannels st)(w := None)\<rparr>,
         [Log ''Client disconnected'', Log ''Last client left channel'', RegistryDelete cid]))"
  using assms
  by (simp add: handleClose_def handleClose_begin_def handleClose_resume_def Set_delete_def
      Let_def)

lemma takeWhile_before_removal:
  "RegistryDelete cid \<notin> set xs \<Longrightarrow> before_removal cid (xs @ RegistryDelete cid # ys) = xs"
  by (induction xs) (auto simp: before_removal_def)

text \<open>
  C4, as the code has it. When the last client of a registered channel leaves and the call
  runs to its end: if the engine client reports the session active, the calls of the
  graceful sequence made before the channel is removed are audio-end, prompt-end, close in
  this order, up to the first that is rejected or has not come back when the timer fires;
  when all three come back in time they are the only engine calls; when one does not, the
  first server follows them with \<open>forceCloseSession\<close> before the removal. If the session
  is not active no engine call is made. In every case the channel leaves both maps, the
  connection leaves \<open>clientChannels\<close>, and the registry entry is deleted once.
\<close>

theorem last_client_teardown:
  assumes "clientChannels st w = Some cid"
    and "cid \<noteq> []"
    and "channelClients st cid = Some [w]"
    and "channelConversations st cid = Some conv"
  shows "channelConversations (fst (handleClose v e bc w st)) cid = None
     \<and> channelClients (fst (handleClose v e bc w st)) cid = None
     \<and> clientChannels (fst (handleClose v e bc w st)) w = None
     \<and> count_list (snd (handleClose v e bc w st)) (RegistryDelete cid) = 1
     \<and> (\<not> isSessionActive bc cid \<longrightarrow> engine_calls (snd (handleClose v e bc w st)) = [])
     \<and> (isSessionActive bc cid \<longrightarrow>
          filter graceful_call
            (engine_calls (before_removal cid (snd (handleClose v e bc w st)))) =
          (if fails e EndAudioContent then [EndAudioContent]
           else if fails e EndPrompt then [EndAudioContent, EndPrompt]
           else [EndAudioContent, EndPrompt, Close]))
     \<and> (isSessionActive bc cid \<and> \<not> fails e EndAudioContent \<and> \<not> fails e EndPrompt
          \<and> \<not> fails e Close \<longrightarrow>
          engine_calls (snd (handleClose v e bc w st)) = [EndAudioContent, EndPrompt, Close])
     \<and> (isSessionActive bc cid
          \<and> (fails e EndAudioContent \<or> fails e EndPrompt \<or> fails e Close) \<longrightarrow>
          engine_calls (before_removal cid (snd (handleClose Legacy e bc w st))) =
          (if fails e EndAudioContent then [EndAudioContent]
           else if fails e EndPrompt then [EndAudioContent, EndPrompt]
           else [EndAudioContent, EndPrompt, Close]) @ [ForceCloseSession cid])"
proof -
  note hc = handleClose_last_client [OF assms]
  have nd: "RegistryDelete cid \<notin> set
      ([Log ''Client disconnected'', Log ''Last client left channel'', Call EndAudioContent]
       @ fst (teardown_settled u e cid))" for u
    using RegistryDelete_not_in_teardown_settled [of cid u e cid] by simp
  have nd2: "RegistryDelete cid \<notin> set (snd (teardown_settled u e cid))" for u
    using RegistryDelete_not_in_teardown_settled [of cid u e cid] by simp
  have before: "isSessionActive bc cid \<Longrightarrow>
      before_removal cid (snd (handleClose u e bc w st)) =
        [Log ''Client disconnected'', Log ''Last client left channel'', Call EndAudioContent]
        @ fst (teardown_settled u e cid)" for u
    using takeWhile_before_removal [OF nd [of u], of "snd (teardown_settled u e cid)"]
    by (simp add: hc)
  have maps: "channelConversations (fst (handleClose v e bc w st)) cid = None
     \<and> channelClients (fst (handleClose v e bc w st)) cid = None
     \<and> clientChannels (fst (handleClose v e bc w st)) w = None"
    by (simp add: hc)
  have once: "count_list (snd (handleClose v e bc w st)) (RegistryDelete cid) = 1"
    using nd [of v] nd2 [of v] by (simp add: hc)
  have inactive: "\<not> isSessionActive bc cid \<Longrightarrow> engine_calls (snd (handleClose v e bc w st)) = []"
    by (simp add: hc)
  have graceful_part: "isSessionActive bc cid \<Longrightarrow>
          filter graceful_call
            (engine_calls (before_removal cid (snd (handleClose v e bc w st)))) =
          (if fails e EndAudioContent then [EndAudioContent]
           else if fails e EndPrompt then [EndAudioContent, EndPrompt]
           else [EndAudioContent, EndPrompt, Close])"
    by (cases v)
       (simp_all add: before engine_calls_append engine_calls_teardown_settled graceful_call_def)
  have success: "isSessionActive bc cid \<Longrightarrow> \<not> fails e EndAudioContent \<Longrightarrow>
       \<not> fails e EndPrompt \<Longrightarrow> \<not> fails e Close \<Longrightarrow>
       engine_calls (snd (handleClose v e bc w st)) = [EndAudioContent, EndPrompt, Close]"
    by (simp add: hc engine_calls_append engine_calls_teardown_settled
        teardown_settled_success)
  have forced: "isSessionActive bc cid \<Longrightarrow>
       fails e EndAudioContent \<or> fails e EndPrompt \<or> fails e Close \<Longrightarrow>
       engine_calls (before_removal cid (snd (handleClose Legacy e bc w st))) =
          (if fails e EndAudioContent then [EndAudioContent]
           else if fails e EndPrompt then [EndAudioContent, EndPrompt]
           else [EndAudioContent, EndPrompt, Close]) @ [ForceCloseSession cid]"
    by (auto simp: before engine_calls_append engine_calls_teardown_settled)
  from maps once inactive graceful_part success forced show ?thesis by blast
qed

theorem last_client_teardown_witness:
  "clientChannels one_channel 1 = Some ''c1'' \<and> ''c1'' \<noteq> []
   \<and> channelClients one_channel ''c1'' = Some [1]
   \<and> channelConversations one_channel ''c1'' = Some \<lparr>conv_id = ''c1'', handle = 0\<rparr>
   \<and> channelConversations (fst (handleClose Main demo_env quiet_bedrock 1 one_channel)) ''c1'' = None
   \<and> engine_calls (snd (handleClose Main demo_env quiet_bedrock 1 one_channel)) =
        [EndAudioContent, EndPrompt, Close]
   \<and> engine_calls (before_removal ''c1''
        (snd (handleClose Legacy prompt_end_rejects quiet_bedrock 1 one_channel))) =
        [EndAudioContent, EndPrompt, ForceCloseSession ''c1'']
   \<and> engine_calls (before_removal ''c1''
        (snd (handleClose Legacy slow_audio_end quiet_bedrock 1 one_channel))) =
        [EndAudioContent, ForceCloseSession ''c1'']"
proof -
  have h1: "clientChannels one_channel 1 = Some ''c1''" by (simp add: one_channel_def)
  have h2: "''c1'' \<noteq> []" by simp
  have h3: "channelClients one_channel ''c1'' = Some [1]" by (simp add: one_channel_def)
  have h4: "channelConversations one_channel ''c1'' = Some \<lparr>conv_id = ''c1'', handle = 0\<rparr>"
    by (simp add: one_channel_def)
  have a: "isSessionActive quiet_bedrock ''c1''" by (simp add: quiet_bedrock_def)
  have ok: "\<not> fails demo_env c" for c by (simp add: fails_def demo_env_def)
  have rej: "\<not> fails prompt_end_rejects EndAudioContent \<and> fails prompt_end_rejects EndPrompt"
    by (simp add: fails_def prompt_end_rejects_def demo_env_def)
  have slow: "fails slow_audio_end EndAudioContent"
    by (simp add: fails_def slow_audio_end_def demo_env_def)
  from last_client_teardown [OF h1 h2 h3 h4, of Main demo_env quiet_bedrock]
    last_client_teardown [OF h1 h2 h3 h4, of Main prompt_end_rejects quiet_bedrock]
    last_client_teardown [OF h1 h2 h3 h4, of Main slow_audio_end quiet_bedrock]
    h1 h3 h4 a ok rej slow
  show ?thesis by simp
qed

text \<open>
  C4 as it is stated fails when the session is no longer active (closed by the sweep, for
  one): the last client leaves, the channel is removed, and neither audio-end nor
  prompt-end nor close is called.
\<close>

theorem inactive_session_no_teardown_counterexample:
  "engine_calls (snd (handleClose Main demo_env closed_bedrock 1 one_channel)) = []
   \<and> channelConversations (fst (handleClose Main demo_env closed_bedrock 1 one_channel)) ''c1''
       = None"
  by (simp add: handleClose_def handleClose_begin_def one_channel_def closed_bedrock_def
      Set_delete_def Let_def)

text \<open>
  A join that runs while a \<open>handleClose\<close> is waiting finds the channel still registered
  and attaches to it; the waiting call then removes the channel under the new client.
\<close>

lemma join_during_teardown:
  "clientChannels
     (fst (handleClose_resume Main demo_env 1 ''c1''
        (fst (join_begin demo_env 2 ''c1''
           (fst (handleClose_begin Main quiet_bedrock 1 one_channel)))))) 2 = Some ''c1''
   \<and> channelConversations
     (fst (handleClose_resume Main demo_env 1 ''c1''
        (fst (join_begin demo_env 2 ''c1''
           (fst (handleClose_begin Main quiet_bedrock 1 one_channel)))))) ''c1'' = None"
  by (simp add: handleClose_begin_def handleClose_resume_def join_begin_def attach_def
      one_channel_def quiet_bedrock_def Set_delete_def Set_add_def Let_def)

section \<open>The periodic sweep\<close>

lemma engine_calls_sweep_session:
  "engine_calls (sweep_session v e bc now sessionId) =
     (if now - getLastActivityTime bc sessionId > 300000 then [client_close v sessionId] else [])"
  by (simp add: sweep_session_def fiveMinsInMs_def Let_def)

lemma sweep_session_quiet:
  "WsClose w \<notin> set (sweep_session v e bc now sessionId)
   \<and> RegistryDelete cid \<notin> set (sweep_session v e bc now sessionId)
   \<and> Send w m \<notin> set (sweep_session v e bc now sessionId)"
  by (simp add: sweep_session_def Let_def)

text \<open>
  C3, as the code has it. One sweep asks the engine client to close exactly the active
  sessions whose last activity lies more than 300000 ms before the sweep time
  (\<open>forceCloseSession\<close> in the first server, \<open>closeSession\<close> in the main one), in the
  order of the list, whether or not clients are attached. It closes no client connection
  and leaves the three maps of the server as they are.
\<close>

theorem sweep_closes_idle_sessions:
  "fst (sweep v e bc now st) = st
   \<and> engine_calls (snd (sweep v e bc now st)) =
       map (client_close v)
         (filter (\<lambda>sessionId. now - getLastActivityTime bc sessionId > 300000)
                 (getActiveSessions bc))
   \<and> WsClose w \<notin> set (snd (sweep v e bc now st))
   \<and> RegistryDelete cid \<notin> set (snd (sweep v e bc now st))"
proof -
  have "engine_calls (concat (map (sweep_session v e bc now) xs)) =
        map (client_close v)
         (filter (\<lambda>sessionId. now - getLastActivityTime bc sessionId > 300000) xs)" for xs
    by (induction xs) (simp_all add: engine_calls_append engine_calls_sweep_session)
  then show ?thesis
    using sweep_session_quiet [of _ v e bc now]
    by (auto simp: sweep_def)
qed

theorem sweep_closes_idle_sessions_witness:
  "engine_calls (snd (sweep Legacy demo_env quiet_bedrock 300001 one_channel)) =
     [ForceCloseSession ''c1'']
   \<and> engine_calls (snd (sweep Legacy demo_env quiet_bedrock 300000 one_channel)) = []
   \<and> fst (sweep Legacy demo_env quiet_bedrock 300001 one_channel) = one_channel"
  using sweep_closes_idle_sessions [of Legacy demo_env quiet_bedrock 300001 one_channel]
    sweep_closes_idle_sessions [of Legacy demo_env quiet_bedrock 300000 one_channel]
  by (simp add: quiet_bedrock_def)

text \<open>
  C3 as it is stated fails on a channel idle for 300001 ms with client 1 attached: after
  the sweep the channel is still in the registry, client 1 is still in its set, and the
  only effect beside the log lines is the close request.
\<close>

theorem sweep_keeps_channel_counterexample:
  "channelConversations (fst (sweep Main demo_env quiet_bedrock 300001 one_channel)) ''c1''
     = Some \<lparr>conv_id = ''c1'', handle = 0\<rparr>
   \<and> channelClients (fst (sweep Main demo_env quiet_bedrock 300001 one_channel)) ''c1'' = Some [1]
   \<and> snd (sweep Main demo_env quiet_bedrock 300001 one_channel) =
       [Log ''Running session cleanup check'', Log ''Closing inactive session'',
        Call (CloseSession ''c1'')]"
  by (simp add: sweep_def sweep_session_def one_channel_def quiet_bedrock_def demo_env_def
      fiveMinsInMs_def close_throws_def Let_def)


section \<open>Routing a message\<close>

lemma try_catch_not_Rejected: "snd (try_catch body handler) \<noteq> Rejected err"
  by (simp add: try_catch_def split: settle.splits)

lemma WsClose_not_in_sendError: "WsClose w' \<notin> set (sendError w a b)"
  by (simp add: sendError_def)

lemma fst_seq_then_subset: "set (fst (seq_then a b)) \<subseteq> set (fst a) \<union> set (fst b)"
  by (auto simp: seq_then_def split: settle.splits)

lemma fst_try_catch_subset:
  "set (fst (try_catch body handler)) \<subseteq> set (fst body) \<union> (\<Union>err. set (handler err))"
  by (auto simp: try_catch_def split: settle.splits)

lemma WsClose_not_in_browser: "WsClose w' \<notin> set (fst (browser_tryProcessAudioInput isOn e msg))"
  by (auto simp: browser_tryProcessAudioInput_def try_catch_def await_call_def
      split: settle.splits sum.splits outcome.splits)

lemma WsClose_not_in_twilio_dispatch: "WsClose w' \<notin> set (fst (twilio_dispatch e data))"
  by (auto simp: twilio_dispatch_def twilio_start_def twilio_media_def await_call_def Let_def
      split: sum.splits)

lemma WsClose_not_in_twilio: "WsClose w' \<notin> set (fst (twilio_tryProcessAudioInput isOn e msg))"
proof -
  have "WsClose w' \<notin> set (fst (try_catch (twilio_dispatch e data)
           (\<lambda>err. [ErrorLog ''Error processing Twilio audio data''])))" for data
    using WsClose_not_in_twilio_dispatch [of w' e data]
      fst_try_catch_subset [of "twilio_dispatch e data"
        "\<lambda>err. [ErrorLog ''Error processing Twilio audio data'']"]
    by auto
  then show ?thesis
    by (simp add: twilio_tryProcessAudioInput_def split: sum.splits)
qed

lemma WsClose_not_in_nova: "WsClose w' \<notin> set (fst (tryProcessNovaSonicMessage e msg))"
  by (auto simp: tryProcessNovaSonicMessage_def try_catch_def await_call_def
      novaSonicHandlers_def seq_then_def
      split: settle.splits sum.splits outcome.splits option.splits if_splits)

lemma WsClose_not_in_body:
  "WsClose w' \<notin> set (fst (handleMessage_body cfg e vonage_in msg))"
proof -
  let ?b = "if browser_isOn cfg then browser_tryProcessAudioInput (browser_isOn cfg) e msg
            else ([], Fulfilled)"
  let ?v = "if vonage_isOn cfg then (map Call (fst (vonage_in msg)), snd (vonage_in msg))
            else ([], Fulfilled)"
  let ?t = "if twilio_isOn cfg then twilio_tryProcessAudioInput (twilio_isOn cfg) e msg
            else ([], Fulfilled)"
  let ?n = "tryProcessNovaSonicMessage e msg"
  have b: "WsClose w' \<notin> set (fst ?b)" using WsClose_not_in_browser by simp
  have v: "WsClose w' \<notin> set (fst ?v)" by auto
  have t: "WsClose w' \<notin> set (fst ?t)" using WsClose_not_in_twilio by simp
  have n: "WsClose w' \<notin> set (fst ?n)" by (rule WsClose_not_in_nova)
  have "WsClose w' \<notin> set (fst (seq_then ?t ?n))"
    using t n fst_seq_then_subset [of ?t ?n] by blast
  then have "WsClose w' \<notin> set (fst (seq_then ?v (seq_then ?t ?n)))"
    using v fst_seq_then_subset [of ?v "seq_then ?t ?n"] by blast
  then have "WsClose w' \<notin> set (fst (seq_then ?b (seq_then ?v (seq_then ?t ?n))))"
    using b fst_seq_then_subset [of ?b "seq_then ?v (seq_then ?t ?n)"] by blast
  then show ?thesis unfolding handleMessage_body_def .
qed

lemma WsClose_not_in_handleMessage:
  "WsClose w' \<notin> set (fst (handleMessage cfg e vonage_in w msg st))"
proof -
  have "WsClose w' \<notin> set (fst (try_catch (handleMessage_body cfg e vonage_in msg)
           (\<lambda>err. sendError w ''Error processing message'' (error_text err))))"
    using WsClose_not_in_body [of w' cfg e vonage_in msg]
      fst_try_catch_subset [of "handleMessage_body cfg e vonage_in msg"
        "\<lambda>err. sendError w ''Error processing message'' (error_text err)"]
      WsClose_not_in_sendError
    by blast
  then show ?thesis
    by (simp add: handleMessage_def WsClose_not_in_sendError split: option.splits)
qed

lemma twilio_throws_on_unparseable:
  "twilio_tryProcessAudioInput True e (Opaque bs) = ([], Rejected SyntaxError)"
  by (simp add: twilio_tryProcessAudioInput_def)

text \<open>
  C8, as the code has it. For every raw message and whatever the libraries and the engine
  do, the inbound functions of the Browser, Vonage and Genesys adapters and the
  control-message handler never throw to their caller, and the Twilio adapter never throws
  on a message that parses; \<open>handleMessage\<close> never throws and never closes a connection,
  with any integrations switched on. On a message that does not parse, the Genesys adapter
  logs an error, the Browser adapter and the control-message handler do nothing at all,
  and the Vonage adapter streams the message to the engine as audio.
\<close>

theorem inbound_never_throws:
  "snd (browser_tryProcessAudioInput isOn e msg) \<noteq> Rejected err
   \<and> snd (vonage_processAudioData isOn e msg) \<noteq> Rejected err
   \<and> snd (genesys_tryProcessAudioInput isOn e msg) \<noteq> Rejected err
   \<and> snd (tryProcessNovaSonicMessage e msg) \<noteq> Rejected err
   \<and> snd (twilio_tryProcessAudioInput isOn e (JsonText v)) \<noteq> Rejected err
   \<and> snd (handleMessage cfg e vonage_in w msg st) \<noteq> Rejected err
   \<and> WsClose w' \<notin> set (fst (handleMessage cfg e vonage_in w msg st))
   \<and> genesys_tryProcessAudioInput True e (Opaque bs) =
       ([ErrorLog ''Error processing Genesys audio data''], Fulfilled)
   \<and> browser_tryProcessAudioInput True e (Opaque bs) = ([], Fulfilled)
   \<and> tryProcessNovaSonicMessage e (Opaque bs) = ([], Fulfilled)
   \<and> vonage_processAudioData True e (Opaque bs) =
       try_catch (await_call e (StreamAudio (MessageBytes (Opaque bs))))
         (\<lambda>err. [ErrorLog ''Error processing Vonage audio data''])"
proof -
  have hm: "snd (handleMessage cfg e vonage_in w msg st) \<noteq> Rejected err"
    by (simp add: handleMessage_def try_catch_not_Rejected split: option.splits)
  show ?thesis
    by (simp add: hm WsClose_not_in_handleMessage browser_tryProcessAudioInput_def
        vonage_processAudioData_def genesys_tryProcessAudioInput_def
        twilio_tryProcessAudioInput_def
        tryProcessNovaSonicMessage_def try_catch_not_Rejected browser_decode_def
        genesys_dispatch_def)
       (simp add: try_catch_def)
qed

text \<open>
  C8 as it is stated fails on three bytes that do not parse, sent by an attached client:
  with the browser integration on, nothing is logged and nothing is reported; and the
  Twilio adapter, which parses before its \<open>try\<close> block, throws to its caller.
\<close>

theorem malformed_message_counterexample:
  "handleMessage browser_only demo_env vonage_missing 1 (Opaque [1, 2, 3]) one_channel
     = ([], Fulfilled)
   \<and> twilio_tryProcessAudioInput True demo_env (Opaque [1, 2, 3]) = ([], Rejected SyntaxError)"
  by (simp add: handleMessage_def handleMessage_body_def one_channel_def browser_only_def
      browser_tryProcessAudioInput_def browser_decode_def twilio_tryProcessAudioInput_def
      tryProcessNovaSonicMessage_def try_catch_def seq_then_def)

theorem inbound_never_throws_witness:
  "snd (handleMessage twilio_only demo_env vonage_missing 1 (Opaque [1, 2, 3]) one_channel)
     = Fulfilled
   \<and> WsClose 1 \<notin> set (fst (handleMessage twilio_only demo_env vonage_missing 1
          (Opaque [1, 2, 3]) one_channel))
   \<and> engine_calls (fst (handleMessage browser_only demo_env vonage_missing 1
          (JsonText (JObj [(''type'', JStr ''promptStart'')])) one_channel)) = [SetupPromptStart]"
  using inbound_never_throws [of True demo_env "Opaque [1, 2, 3]" TypeError "JNull"
      twilio_only vonage_missing 1 one_channel 1 "[]"]
  by (simp add: handleMessage_def handleMessage_body_def one_channel_def browser_only_def
      twilio_only_def twilio_tryProcessAudioInput_def
      browser_tryProcessAudioInput_def browser_decode_def
      tryProcessNovaSonicMessage_def novaSonicHandlers_def try_catch_def seq_then_def
      await_call_def demo_env_def)

end
